theory Spec2Isabelle
  imports Complex_Main "HOL-Library.AList"
begin

text \<open>
  A shallow embedding of \<^verbatim>\<open>src/main.js\<close> of the Deep-Work repository: the profile
  resolver, the conflict detector, the process launcher, the debug session establisher
  (\<^verbatim>\<open>ensureChromeDebugging\<close>) and the tab tracking engine (\<^verbatim>\<open>ensureTabTracking\<close> with its
  three protocol handlers). The module variables are a record that every operation takes
  and returns; the operating system, the browser and the protocol library are oracles of
  an environment record; a thrown error is the left summand of a result. The window, the
  IPC handlers, \<^verbatim>\<open>fetchChromeTabs\<close> and \<^verbatim>\<open>switchProfile\<close> are not modelled.
\<close>

section \<open>JavaScript values and string helpers\<close>

text \<open>
  A string is the list of the bytes of its UTF-8 encoding. A string is truthy when it is
  not empty.
\<close>

definition startsWith :: "string \<Rightarrow> string \<Rightarrow> bool" where
  "startsWith s p = (take (length p) s = p)"

text \<open>
  \<^verbatim>\<open>String.prototype.trim\<close> removes, from both ends, every code point that ECMAScript
  calls \<^verbatim>\<open>WhiteSpace\<close> or \<^verbatim>\<open>LineTerminator\<close>: U+0009 to U+000D, U+0020, U+00A0, U+1680,
  U+2000 to U+200A, U+2028, U+2029, U+202F, U+205F, U+3000 and U+FEFF. \<open>JS_WHITESPACE\<close>
  lists their encodings. In UTF-8 a string ends with the encoding of a code point exactly
  when that code point is its last, so the right end is trimmed on the reversed bytes.
\<close>

definition JS_WHITESPACE :: "string list" where
  "JS_WHITESPACE =
     [[CHR 0x09], [CHR 0x0A], [CHR 0x0B], [CHR 0x0C], [CHR 0x0D], [CHR 0x20],
      [CHR 0xC2, CHR 0xA0],
      [CHR 0xE1, CHR 0x9A, CHR 0x80],
      [CHR 0xE2, CHR 0x80, CHR 0x80], [CHR 0xE2, CHR 0x80, CHR 0x81],
      [CHR 0xE2, CHR 0x80, CHR 0x82], [CHR 0xE2, CHR 0x80, CHR 0x83],
      [CHR 0xE2, CHR 0x80, CHR 0x84], [CHR 0xE2, CHR 0x80, CHR 0x85],
      [CHR 0xE2, CHR 0x80, CHR 0x86], [CHR 0xE2, CHR 0x80, CHR 0x87],
      [CHR 0xE2, CHR 0x80, CHR 0x88], [CHR 0xE2, CHR 0x80, CHR 0x89],
      [CHR 0xE2, CHR 0x80, CHR 0x8A],
      [CHR 0xE2, CHR 0x80, CHR 0xA8], [CHR 0xE2, CHR 0x80, CHR 0xA9],
      [CHR 0xE2, CHR 0x80, CHR 0xAF],
      [CHR 0xE2, CHR 0x81, CHR 0x9F],
      [CHR 0xE3, CHR 0x80, CHR 0x80],
      [CHR 0xEF, CHR 0xBB, CHR 0xBF]]"

text \<open>Removes leading occurrences of the given non-empty byte sequences.\<close>

function strip_tokens :: "string list \<Rightarrow> string \<Rightarrow> string" where
  "strip_tokens ws s =
     (case find (\<lambda>w. w \<noteq> [] \<and> startsWith s w) ws of
        None \<Rightarrow> s
      | Some w \<Rightarrow> strip_tokens ws (drop (length w) s))"
  by pat_completeness auto
termination
proof (relation "measure (\<lambda>(ws, s). length s)")
  show "wf (measure (\<lambda>(ws, s). length s))" by simp
next
  fix ws :: "string list" and s w :: string
  assume "find (\<lambda>w. w \<noteq> [] \<and> startsWith s w) ws = Some w"
  then have w: "w \<noteq> []" and t: "take (length w) s = w"
    by (auto simp: find_Some_iff startsWith_def)
  from w t have "s \<noteq> []" by auto
  with w show "((ws, drop (length w) s), (ws, s)) \<in> measure (\<lambda>(ws, s). length s)"
    by (cases w; cases s) auto
qed

declare strip_tokens.simps [simp del]

definition trimStart :: "string \<Rightarrow> string" where
  "trimStart s = strip_tokens JS_WHITESPACE s"

definition trimEnd :: "string \<Rightarrow> string" where
  "trimEnd s = rev (strip_tokens (map rev JS_WHITESPACE) (rev s))"

definition js_trim :: "string \<Rightarrow> string" where
  "js_trim s = trimEnd (trimStart s)"

text \<open>
  \<^verbatim>\<open>main.js\<close> calls \<^verbatim>\<open>toLowerCase\<close> twice, for a comparison with \<^verbatim>\<open>user data\<close> and for a search for
  \<^verbatim>\<open>chrome.exe\<close> in double quotes. The only code points outside ASCII whose lower case
  contains an ASCII letter are U+212A (\<^verbatim>\<open>k\<close>) and U+0130 (\<^verbatim>\<open>i\<close> and a combining dot), and
  neither letter occurs in those two texts; so mapping \<^verbatim>\<open>A-Z\<close> to \<^verbatim>\<open>a-z\<close> and keeping
  every other byte decides both tests as the built-in does.
\<close>

definition lower_char :: "char \<Rightarrow> char" where
  "lower_char c =
     (case map_of (zip ''ABCDEFGHIJKLMNOPQRSTUVWXYZ'' ''abcdefghijklmnopqrstuvwxyz'') c of
        Some d \<Rightarrow> d
      | None \<Rightarrow> c)"

definition toLowerCase :: "string \<Rightarrow> string" where
  "toLowerCase s = map lower_char s"

fun js_includes :: "string \<Rightarrow> string \<Rightarrow> bool" where
  "js_includes [] p = (p = [])"
| "js_includes (c # cs) p = (startsWith (c # cs) p \<or> js_includes cs p)"

text \<open>\<^verbatim>\<open>a || b\<close> on strings that may be undefined: the first truthy operand.\<close>

definition truthy_str :: "string option \<Rightarrow> bool" where
  "truthy_str v = (case v of None \<Rightarrow> False | Some s \<Rightarrow> s \<noteq> [])"

definition or_else :: "string option \<Rightarrow> string \<Rightarrow> string" where
  "or_else v d = (case v of None \<Rightarrow> d | Some s \<Rightarrow> if s \<noteq> [] then s else d)"

definition or_empty :: "string option \<Rightarrow> string" where
  "or_empty v = or_else v []"

text \<open>Decimal rendering of a port number inside a template literal.\<close>

definition digit_char :: "nat \<Rightarrow> char" where
  "digit_char d = (''0123456789'' ! d)"

fun show_nat :: "nat \<Rightarrow> string" where
  "show_nat n = (if n < 10 then [digit_char n] else show_nat (n div 10) @ [digit_char (n mod 10)])"

declare show_nat.simps [simp del]

definition show_int :: "int \<Rightarrow> string" where
  "show_int i = (if i < 0 then CHR ''-'' # show_nat (nat (- i)) else show_nat (nat i))"

text \<open>
  A thrown JavaScript error: its name, its message and the exit status that
  \<^verbatim>\<open>execSync\<close> attaches to it. Fallible code returns \<open>js_error + 'a\<close>, \<open>Inl\<close> the
  thrown error; \<open>try_catch\<close> is a \<^verbatim>\<open>try { ... } catch (err) { ... }\<close> block.
\<close>

record js_error =
  err_name :: string
  err_message :: string
  err_status :: "int option"

definition try_catch :: "js_error + 'a \<Rightarrow> (js_error \<Rightarrow> js_error + 'a) \<Rightarrow> js_error + 'a" where
  "try_catch body handler = (case body of Inl e \<Rightarrow> handler e | Inr v \<Rightarrow> Inr v)"

definition TypeError :: js_error where
  "TypeError = \<lparr>err_name = ''TypeError'', err_message = ''Cannot read properties of null'',
     err_status = None\<rparr>"

section \<open>The platform: path library, process environment, operating system\<close>

datatype platform = Win32 | Darwin | OtherPlatform

text \<open>
  Node's \<^verbatim>\<open>path\<close> module differs between platforms, so the model takes its four
  functions as a parameter. \<open>posix_path\<close> below is the POSIX instance.
\<close>

record path_ops =
  path_normalize :: "string \<Rightarrow> string"
  path_basename :: "string \<Rightarrow> string"
  path_dirname :: "string \<Rightarrow> string"
  path_join :: "string list \<Rightarrow> string"

fun split_slash :: "string \<Rightarrow> string list" where
  "split_slash [] = [[]]"
| "split_slash (c # cs) =
     (if c = CHR ''/'' then [] # split_slash cs
      else (case split_slash cs of [] \<Rightarrow> [[c]] | seg # segs \<Rightarrow> (c # seg) # segs))"

fun join_slash :: "string list \<Rightarrow> string" where
  "join_slash [] = []"
| "join_slash [s] = s"
| "join_slash (s # t # ss) = s @ ''/'' @ join_slash (t # ss)"

text \<open>
  \<open>normalize_segments\<close> is Node's \<^verbatim>\<open>normalizeString\<close>: the accumulator holds the kept
  segments, last one first.
\<close>

fun normalize_segments :: "bool \<Rightarrow> string list \<Rightarrow> string list \<Rightarrow> string list" where
  "normalize_segments allowAbove acc [] = rev acc"
| "normalize_segments allowAbove acc (seg # segs) =
     (if seg = [] \<or> seg = ''.'' then normalize_segments allowAbove acc segs
      else if seg = ''..'' then
        (case acc of
           [] \<Rightarrow> normalize_segments allowAbove (if allowAbove then [''..''] else []) segs
         | a # rest \<Rightarrow>
             if a = ''..'' then normalize_segments allowAbove (if allowAbove then ''..'' # acc else acc) segs
             else normalize_segments allowAbove rest segs)
      else normalize_segments allowAbove (seg # acc) segs)"

definition posix_normalize :: "string \<Rightarrow> string" where
  "posix_normalize p =
     (if p = [] then ''.''
      else
        let isAbsolute = (hd p = CHR ''/'');
            trailingSeparator = (last p = CHR ''/'');
            q = join_slash (normalize_segments (\<not> isAbsolute) [] (split_slash p))
        in if q = [] then (if isAbsolute then ''/'' else if trailingSeparator then ''./'' else ''.'')
           else (if isAbsolute then ''/'' else []) @ q @ (if trailingSeparator then ''/'' else []))"

definition posix_basename :: "string \<Rightarrow> string" where
  "posix_basename p =
     rev (takeWhile (\<lambda>c. c \<noteq> CHR ''/'') (dropWhile (\<lambda>c. c = CHR ''/'') (rev p)))"

definition posix_dirname :: "string \<Rightarrow> string" where
  "posix_dirname p =
     (if p = [] then ''.''
      else
        let hasRoot = (hd p = CHR ''/'');
            r = dropWhile (\<lambda>c. c \<noteq> CHR ''/'') (dropWhile (\<lambda>c. c = CHR ''/'') (rev (tl p)))
        in if r = [] then (if hasRoot then ''/'' else ''.'')
           else if hasRoot \<and> length r = 1 then ''//''
           else take (length r) p)"

definition posix_join :: "string list \<Rightarrow> string" where
  "posix_join args =
     (let parts = filter (\<lambda>a. a \<noteq> []) args
      in if parts = [] then ''.'' else posix_normalize (join_slash parts))"

definition posix_path :: path_ops where
  "posix_path = \<lparr>path_normalize = posix_normalize, path_basename = posix_basename,
     path_dirname = posix_dirname, path_join = posix_join\<rparr>"

section \<open>Configuration and profile selection (main.js lines 11-46)\<close>

text \<open>
  The module constants read from \<^verbatim>\<open>process.env\<close>. \<open>ENV_DEBUG_PORT\<close> is the finite
  value of \<^verbatim>\<open>Number(process.env.CHROME_DEBUG_PORT)\<close>, \<open>None\<close> when it is not finite;
  ports are integers.
\<close>

record config =
  PROFILE_DIR_ENV :: "string option"
  PROFILE_NAME_ENV :: "string option"
  FORCE_KILL_CHROME :: bool
  ENV_DEBUG_PORT :: "int option"

definition DEFAULT_DEBUG_PORT :: int where
  "DEFAULT_DEBUG_PORT = 9222"

definition ALT_DEBUG_PORT :: int where
  "ALT_DEBUG_PORT = 9223"

definition DEBUG_PORT :: "config \<Rightarrow> int" where
  "DEBUG_PORT cfg = (case ENV_DEBUG_PORT cfg of Some n \<Rightarrow> n | None \<Rightarrow> DEFAULT_DEBUG_PORT)"

text \<open>
  Lines 23-35. The result is the pair of module variables
  (\<^verbatim>\<open>selectedProfileName\<close>, \<^verbatim>\<open>chromeUserDataRootOverride\<close>); \<open>None\<close> is \<^verbatim>\<open>null\<close>.
\<close>

definition initialProfileName :: "config \<Rightarrow> string option" where
  "initialProfileName cfg = (if truthy_str (PROFILE_NAME_ENV cfg) then PROFILE_NAME_ENV cfg else None)"

definition profileDirGiven :: "config \<Rightarrow> bool" where
  "profileDirGiven cfg =
     (truthy_str (PROFILE_DIR_ENV cfg) \<and> js_trim (or_empty (PROFILE_DIR_ENV cfg)) \<noteq> [])"

definition resolveProfile :: "path_ops \<Rightarrow> config \<Rightarrow> string option \<times> string option" where
  "resolveProfile P cfg =
     (let selectedProfileName = initialProfileName cfg
      in if profileDirGiven cfg then
           let normalized = path_normalize P (js_trim (or_empty (PROFILE_DIR_ENV cfg)));
               baseName = path_basename P normalized
           in if toLowerCase baseName = ''user data'' then (selectedProfileName, Some normalized)
              else ((if truthy_str selectedProfileName then selectedProfileName else Some baseName),
                    Some (path_dirname P normalized))
         else (selectedProfileName, None))"

section \<open>JSON values\<close>

text \<open>
  The result of \<^verbatim>\<open>JSON.parse\<close>; \<^verbatim>\<open>undefined\<close> is \<open>None\<close> of \<open>json option\<close>. An object
  is the list of its properties in enumeration order, each key once.
\<close>

datatype json = JNull | JBool bool | JNum real | JStr string | JArr "json list"
  | JObj "(string \<times> json) list"

fun js_truthy :: "json \<Rightarrow> bool" where
  "js_truthy JNull = False"
| "js_truthy (JBool b) = b"
| "js_truthy (JNum n) = (n \<noteq> 0)"
| "js_truthy (JStr s) = (s \<noteq> [])"
| "js_truthy (JArr xs) = True"
| "js_truthy (JObj kvs) = True"

text \<open>\<^verbatim>\<open>a || b\<close> where \<open>a\<close> may be undefined.\<close>

definition or_json :: "json option \<Rightarrow> json \<Rightarrow> json" where
  "or_json a b = (case a of None \<Rightarrow> b | Some v \<Rightarrow> if js_truthy v then v else b)"

text \<open>
  \<^verbatim>\<open>v?.k\<close> for the keys the program reads (\<^verbatim>\<open>profile\<close>, \<^verbatim>\<open>last_active_profiles\<close>,
  \<^verbatim>\<open>last_used\<close>, \<^verbatim>\<open>info_cache\<close>, \<^verbatim>\<open>name\<close>): only an object has them. \<^verbatim>\<open>v.k\<close> is the
  same, except that it throws on \<^verbatim>\<open>null\<close>.
\<close>

fun opt_prop :: "json option \<Rightarrow> string \<Rightarrow> json option" where
  "opt_prop (Some (JObj kvs)) k = map_of kvs k"
| "opt_prop _ k = None"

definition get_prop :: "json \<Rightarrow> string \<Rightarrow> js_error + json option" where
  "get_prop v k = (if v = JNull then Inl TypeError else Inr (opt_prop (Some v) k))"

text \<open>\<^verbatim>\<open>Object.keys(v)\<close> paired with \<^verbatim>\<open>v[key]\<close>, for a truthy \<open>v\<close>.\<close>

fun js_entries :: "json \<Rightarrow> (string \<times> json) list" where
  "js_entries (JObj kvs) = kvs"
| "js_entries (JArr xs) = zip (map show_nat [0..<length xs]) xs"
| "js_entries (JStr s) = zip (map show_nat [0..<length s]) (map (\<lambda>c. JStr [c]) s)"
| "js_entries _ = []"

section \<open>Protocol data and the tab registry\<close>

record targetInfo =
  targetId :: string
  target_type :: string
  target_title :: "string option"
  target_url :: "string option"

record tab =
  tab_id :: string
  title :: string
  url :: string
  createdAt :: nat
  isInitial :: bool

datatype cdp_subscription = OnTargetCreated | OnTargetInfoChanged | OnTargetDestroyed

datatype cdp_event =
  TargetCreated "targetInfo option"
| TargetInfoChanged "targetInfo option"
| TargetDestroyed "string option"

text \<open>A protocol connection: the port it was opened on and the listeners registered on it.\<close>

record client =
  client_port :: int
  listeners :: "cdp_subscription list"

record profile_descriptor =
  pd_id :: string
  pd_name :: json
  pd_path :: string

section \<open>The outside world\<close>

text \<open>
  Everything the program asks of its surroundings is an oracle of the environment. The
  oracles that can change while the program runs take the current time, a counter that
  advances at every suspension point (\<^verbatim>\<open>await\<close>). \<open>probe\<close> is the Boolean that the
  promise of \<^verbatim>\<open>checkChromeDebugging\<close> resolves to. \<open>spawn\<close> answers \<open>Inl\<close> when the child
  emits \<^verbatim>\<open>error\<close> and \<open>Inr\<close> with the child's handle when it emits \<^verbatim>\<open>spawn\<close>.
\<close>

record env =
  process_platform :: platform
  path_lib :: path_ops
  env_HOME :: "string option"
  env_LOCALAPPDATA :: "string option"
  env_PROGRAMFILES :: "string option"
  env_PROGRAMFILES_X86 :: "string option"
  probe :: "nat \<Rightarrow> int \<Rightarrow> bool"
  execSync :: "nat \<Rightarrow> string \<Rightarrow> js_error + string"
  existsSync :: "nat \<Rightarrow> string \<Rightarrow> bool"
  readFileSync :: "nat \<Rightarrow> string \<Rightarrow> js_error + string"
  unlinkSync :: "nat \<Rightarrow> string \<Rightarrow> js_error + unit"
  JSON_parse :: "string \<Rightarrow> js_error + json"
  js_Number :: "string \<Rightarrow> real option"
  spawn :: "nat \<Rightarrow> string \<Rightarrow> string list \<Rightarrow> js_error + nat"
  child_exit :: "nat \<Rightarrow> bool"
  child_error :: "nat \<Rightarrow> js_error option"
  Date_now :: "nat \<Rightarrow> nat"
  mainWindow_open :: "nat \<Rightarrow> bool"
  CDP_connect :: "nat \<Rightarrow> int \<Rightarrow> js_error + unit"
  setDiscoverTargets :: "nat \<Rightarrow> js_error + unit"
  getTargets :: "nat \<Rightarrow> js_error + targetInfo list option"

section \<open>Module state (main.js lines 23-24 and 48-64)\<close>

text \<open>
  The module variables, followed by what an observer of a run sees: the time, the
  number of probes issued, the processes spawned, the kill commands run, the files
  unlinked and the tab snapshots sent to the window.
\<close>

record state =
  selectedProfileName :: "string option"
  chromeUserDataRootOverride :: "string option"
  currentDebugPort :: int
  launchedChrome :: "nat option"
  detectedActiveProfile :: json
  lastStatusMessage :: string
  currentUserDataDir :: "string option"
  launchedChromeSpawnError :: "js_error option"
  launchedChromeExited :: bool
  cdpClient :: "client option"
  cdpPort :: "int option"
  tabStateStartedAt :: nat
  tabsById :: "(string \<times> tab) list"
  initialTabIds :: "string set"
  tick :: nat
  probes :: nat
  spawn_log :: "(string \<times> string list) list"
  kill_log :: "string list"
  unlink_log :: "string list"
  sent_tabs :: "tab list list"

definition initial_state :: "config \<Rightarrow> env \<Rightarrow> state" where
  "initial_state cfg env =
     \<lparr>selectedProfileName = fst (resolveProfile (path_lib env) cfg),
      chromeUserDataRootOverride = snd (resolveProfile (path_lib env) cfg),
      currentDebugPort = DEBUG_PORT cfg,
      launchedChrome = None,
      detectedActiveProfile = JNull,
      lastStatusMessage = [],
      currentUserDataDir = None,
      launchedChromeSpawnError = None,
      launchedChromeExited = False,
      cdpClient = None,
      cdpPort = None,
      tabStateStartedAt = 0,
      tabsById = [],
      initialTabIds = {},
      tick = 0, probes = 0, spawn_log = [], kill_log = [], unlink_log = [], sent_tabs = []\<rparr>"

text \<open>
  A suspension point. Time advances, and the listeners that
  \<^verbatim>\<open>launchChromeWithDebugging\<close> left on a spawned child may run: \<^verbatim>\<open>error\<close> stores the
  error, \<^verbatim>\<open>exit\<close> sets the exit flag. Protocol notifications are delivered between
  operations (\<open>notify\<close> below), not inside them.
\<close>

definition await :: "env \<Rightarrow> state \<Rightarrow> state" where
  "await env st =
     (if launchedChrome st = None then st\<lparr>tick := Suc (tick st)\<rparr>
      else st\<lparr>tick := Suc (tick st),
              launchedChromeSpawnError :=
                (case child_error env (tick st) of Some e \<Rightarrow> Some e | None \<Rightarrow> launchedChromeSpawnError st),
              launchedChromeExited := (launchedChromeExited st \<or> child_exit env (tick st))\<rparr>)"

section \<open>Profile resolver (main.js lines 37-107)\<close>

definition defaultChromeUserDataRoot :: "env \<Rightarrow> string" where
  "defaultChromeUserDataRoot env =
     (case process_platform env of
        Win32 \<Rightarrow> path_join (path_lib env)
          [or_empty (env_LOCALAPPDATA env), ''Google'', ''Chrome'', ''User Data'']
      | Darwin \<Rightarrow> path_join (path_lib env)
          [or_empty (env_HOME env), ''Library'', ''Application Support'', ''Google'', ''Chrome'']
      | OtherPlatform \<Rightarrow> path_join (path_lib env)
          [or_empty (env_HOME env), ''.config'', ''google-chrome''])"

definition chromeUserDataRoot :: "env \<Rightarrow> state \<Rightarrow> string" where
  "chromeUserDataRoot env st = or_else (chromeUserDataRootOverride st) (defaultChromeUserDataRoot env)"

definition getUserDataDir :: "env \<Rightarrow> state \<Rightarrow> string" where
  "getUserDataDir env st = or_else (currentUserDataDir st) (chromeUserDataRoot env st)"

text \<open>
  The \<^verbatim>\<open>try\<close> block of \<^verbatim>\<open>readActiveProfileName\<close>: \<open>Inr (Some v)\<close> when it executes
  \<^verbatim>\<open>return v\<close>, \<open>Inr None\<close> when it runs to its end, \<open>Inl\<close> when it throws.
\<close>

definition readActiveProfileName_try :: "env \<Rightarrow> state \<Rightarrow> js_error + json option" where
  "readActiveProfileName_try env st =
     (let localStatePath = path_join (path_lib env) [getUserDataDir env st, ''Local State'']
      in if \<not> existsSync env (tick st) localStatePath then Inr (Some JNull)
         else
           (case readFileSync env (tick st) localStatePath of
              Inl e \<Rightarrow> Inl e
            | Inr raw \<Rightarrow>
                (case JSON_parse env raw of
                   Inl e \<Rightarrow> Inl e
                 | Inr json \<Rightarrow>
                     (case get_prop json ''profile'' of
                        Inl e \<Rightarrow> Inl e
                      | Inr p \<Rightarrow>
                          (let profile = or_json p (JObj [])
                           in case opt_prop (Some profile) ''last_active_profiles'' of
                                Some (JArr (x # xs)) \<Rightarrow> Inr (Some x)
                              | _ \<Rightarrow>
                                  (case opt_prop (Some profile) ''last_used'' of
                                     Some (JStr s) \<Rightarrow> Inr (Some (JStr s))
                                   | _ \<Rightarrow> Inr None))))))"

definition readActiveProfileName :: "env \<Rightarrow> state \<Rightarrow> js_error + json" where
  "readActiveProfileName env st =
     (case try_catch (readActiveProfileName_try env st) (\<lambda>err. Inr None) of
        Inl e \<Rightarrow> Inl e
      | Inr (Some v) \<Rightarrow> Inr v
      | Inr None \<Rightarrow> Inr JNull)"

definition getAvailableProfiles_try :: "env \<Rightarrow> state \<Rightarrow> js_error + profile_descriptor list" where
  "getAvailableProfiles_try env st =
     (let baseDir = chromeUserDataRoot env st;
          localStatePath = path_join (path_lib env) [baseDir, ''Local State'']
      in if \<not> existsSync env (tick st) localStatePath then Inr []
         else
           (case readFileSync env (tick st) localStatePath of
              Inl e \<Rightarrow> Inl e
            | Inr raw \<Rightarrow>
                (case JSON_parse env raw of
                   Inl e \<Rightarrow> Inl e
                 | Inr json \<Rightarrow>
                     (let infoCache = or_json (opt_prop (opt_prop (Some json) ''profile'') ''info_cache'') (JObj [])
                      in Inr (map (\<lambda>(key, v).
                                \<lparr>pd_id = key,
                                 pd_name = or_json (opt_prop (Some v) ''name'') (JStr key),
                                 pd_path = path_join (path_lib env) [baseDir, key]\<rparr>)
                              (js_entries infoCache))))))"

definition getAvailableProfiles :: "env \<Rightarrow> state \<Rightarrow> js_error + profile_descriptor list" where
  "getAvailableProfiles env st = try_catch (getAvailableProfiles_try env st) (\<lambda>err. Inr [])"

section \<open>Conflict detector (main.js lines 109-173)\<close>

definition dq :: string where
  "dq = [CHR 0x22]"

definition PS_COUNT_CMD :: string where
  "PS_COUNT_CMD = ''powershell -NoProfile -Command '' @ dq @
     ''(Get-Process chrome -ErrorAction SilentlyContinue).Count'' @ dq"

definition TASKLIST_CMD :: string where
  "TASKLIST_CMD = ''tasklist /FI '' @ dq @ ''IMAGENAME eq chrome.exe'' @ dq @ '' /FO CSV /NH''"

definition PGREP_DARWIN_CMD :: string where
  "PGREP_DARWIN_CMD = ''pgrep -x '' @ dq @ ''Google Chrome'' @ dq @ '' || true''"

definition PGREP_CMD :: string where
  "PGREP_CMD = ''pgrep -x chrome || true''"

text \<open>
  The inner \<^verbatim>\<open>try\<close> of the Windows branch: \<open>Some b\<close> when it returns \<open>b\<close>, \<open>None\<close> when
  the count is not finite or PowerShell throws, so that control falls to \<^verbatim>\<open>tasklist\<close>.
\<close>

definition powershellCount :: "env \<Rightarrow> state \<Rightarrow> bool option" where
  "powershellCount env st =
     (case execSync env (tick st) PS_COUNT_CMD of
        Inl e \<Rightarrow> None
      | Inr out \<Rightarrow> (case js_Number env (js_trim out) of Some n \<Rightarrow> Some (n > 0) | None \<Rightarrow> None))"

definition chromeProcessesRunning_try :: "env \<Rightarrow> state \<Rightarrow> js_error + bool" where
  "chromeProcessesRunning_try env st =
     (case process_platform env of
        Win32 \<Rightarrow>
          (case powershellCount env st of
             Some b \<Rightarrow> Inr b
           | None \<Rightarrow>
               (case execSync env (tick st) TASKLIST_CMD of
                  Inl e \<Rightarrow> Inl e
                | Inr out \<Rightarrow> Inr (js_includes (toLowerCase out) (dq @ ''chrome.exe'' @ dq))))
      | Darwin \<Rightarrow>
          (case execSync env (tick st) PGREP_DARWIN_CMD of
             Inl e \<Rightarrow> Inl e
           | Inr out \<Rightarrow> Inr (js_trim out \<noteq> []))
      | OtherPlatform \<Rightarrow>
          (case execSync env (tick st) PGREP_CMD of
             Inl e \<Rightarrow> Inl e
           | Inr out \<Rightarrow> Inr (js_trim out \<noteq> [])))"

definition chromeProcessesRunning :: "env \<Rightarrow> state \<Rightarrow> js_error + bool" where
  "chromeProcessesRunning env st = try_catch (chromeProcessesRunning_try env st) (\<lambda>err. Inr False)"

text \<open>
  The singleton-lock paths, built the same way by \<^verbatim>\<open>chromeProfileLikelyLocked\<close>
  (\<^verbatim>\<open>lockCandidates\<close>) and by \<^verbatim>\<open>forceKillChrome\<close> (\<^verbatim>\<open>lockFiles\<close>).
\<close>

definition lockCandidates :: "env \<Rightarrow> state \<Rightarrow> string list" where
  "lockCandidates env st =
     (let baseDir = chromeUserDataRoot env st
      in [path_join (path_lib env) [baseDir, ''SingletonLock''],
          path_join (path_lib env) [baseDir, ''SingletonSocket''],
          path_join (path_lib env) [baseDir, ''SingletonCookie'']] @
         (if truthy_str (selectedProfileName st) then
            (let profileDir = path_join (path_lib env) [baseDir, or_empty (selectedProfileName st)]
             in [path_join (path_lib env) [profileDir, ''SingletonLock''],
                 path_join (path_lib env) [profileDir, ''SingletonSocket''],
                 path_join (path_lib env) [profileDir, ''SingletonCookie'']])
          else []))"

definition chromeProfileLikelyLocked_try :: "env \<Rightarrow> state \<Rightarrow> js_error + bool" where
  "chromeProfileLikelyLocked_try env st =
     Inr (list_ex (\<lambda>p. existsSync env (tick st) p) (lockCandidates env st))"

definition chromeProfileLikelyLocked :: "env \<Rightarrow> state \<Rightarrow> js_error + bool" where
  "chromeProfileLikelyLocked env st =
     try_catch (chromeProfileLikelyLocked_try env st) (\<lambda>err. Inr False)"

text \<open>
  Line 410, the local \<^verbatim>\<open>chromeRunning\<close> of \<^verbatim>\<open>ensureChromeDebugging\<close>:
  \<^verbatim>\<open>chromeProcessesRunning() || (process.platform === 'win32' && chromeProfileLikelyLocked())\<close>.
\<close>

definition chromeRunning :: "env \<Rightarrow> state \<Rightarrow> js_error + bool" where
  "chromeRunning env st =
     (case chromeProcessesRunning env st of
        Inl e \<Rightarrow> Inl e
      | Inr running \<Rightarrow>
          if running then Inr True
          else if process_platform env = Win32 then chromeProfileLikelyLocked env st
          else Inr False)"

section \<open>Process launcher (main.js lines 175-383)\<close>

definition TASKKILL_CMD :: string where
  "TASKKILL_CMD = ''taskkill /F /IM chrome.exe /T''"

definition PKILL_DARWIN_CMD :: string where
  "PKILL_DARWIN_CMD = ''pkill -9 '' @ dq @ ''Google Chrome'' @ dq @ '' || true''"

definition PKILL_CMD :: string where
  "PKILL_CMD = ''pkill -9 chrome || true''"

text \<open>
  The \<^verbatim>\<open>forEach\<close> over the lock files inside its own \<^verbatim>\<open>try\<close>: a throwing
  \<^verbatim>\<open>unlinkSync\<close> ends the loop, and the \<^verbatim>\<open>catch\<close> only logs.
\<close>

fun removeLockFiles :: "env \<Rightarrow> string list \<Rightarrow> state \<Rightarrow> state" where
  "removeLockFiles env [] st = st"
| "removeLockFiles env (lockFile # rest) st =
     (if existsSync env (tick st) lockFile then
        (case unlinkSync env (tick st) lockFile of
           Inl e \<Rightarrow> st
         | Inr u \<Rightarrow> removeLockFiles env rest (st\<lparr>unlink_log := unlink_log st @ [lockFile]\<rparr>))
      else removeLockFiles env rest st)"

definition killCommand :: "env \<Rightarrow> string" where
  "killCommand env =
     (case process_platform env of
        Win32 \<Rightarrow> TASKKILL_CMD | Darwin \<Rightarrow> PKILL_DARWIN_CMD | OtherPlatform \<Rightarrow> PKILL_CMD)"

text \<open>
  \<^verbatim>\<open>forceKillChrome\<close>. On Windows an error of \<^verbatim>\<open>taskkill\<close> with status 128 is ignored;
  any other error, on any platform, reaches the outer \<^verbatim>\<open>catch\<close>, which logs it, and the
  lock files are then left alone.
\<close>

definition forceKillChrome :: "config \<Rightarrow> env \<Rightarrow> state \<Rightarrow> state" where
  "forceKillChrome cfg env st =
     (if \<not> FORCE_KILL_CHROME cfg then st
      else
        (let st1 = st\<lparr>kill_log := kill_log st @ [killCommand env]\<rparr>
         in case execSync env (tick st) (killCommand env) of
              Inr out \<Rightarrow> removeLockFiles env (lockCandidates env st1) st1
            | Inl err \<Rightarrow>
                if process_platform env = Win32 \<and> err_status err = Some 128
                then removeLockFiles env (lockCandidates env st1) st1
                else st1))"

definition checkChromeDebugging :: "env \<Rightarrow> int \<Rightarrow> state \<Rightarrow> bool \<times> state" where
  "checkChromeDebugging env port st =
     (probe env (tick st) port, await env (st\<lparr>probes := Suc (probes st)\<rparr>))"

definition bs :: string where
  "bs = [CHR 0x5C]"

definition chromeCandidates :: "env \<Rightarrow> string list" where
  "chromeCandidates env =
     (case process_platform env of
        Win32 \<Rightarrow>
          (let suffix = ''Google'' @ bs @ ''Chrome'' @ bs @ ''Application'' @ bs @ ''chrome.exe'';
               roots = filter (\<lambda>r. r \<noteq> [])
                 (map or_empty [env_PROGRAMFILES env, env_PROGRAMFILES_X86 env, env_LOCALAPPDATA env])
           in map (\<lambda>base. path_join (path_lib env) [base, suffix]) roots @ [''chrome.exe''])
      | Darwin \<Rightarrow> [''/Applications/Google Chrome.app/Contents/MacOS/Google Chrome'']
      | OtherPlatform \<Rightarrow> [''/usr/bin/google-chrome'', ''/usr/bin/chromium'', ''/usr/bin/chromium-browser''])"

definition findChromeExecutable :: "env \<Rightarrow> state \<Rightarrow> string option" where
  "findChromeExecutable env st = find (\<lambda>candidate. existsSync env (tick st) candidate) (chromeCandidates env)"

definition buildChromeArgs :: "env \<Rightarrow> int \<Rightarrow> state \<Rightarrow> string list" where
  "buildChromeArgs env port st =
     [''--remote-debugging-port='' @ show_int port,
      ''--remote-debugging-address=127.0.0.1'',
      ''--user-data-dir='' @ chromeUserDataRoot env st] @
     (if truthy_str (selectedProfileName st)
      then [''--profile-directory='' @ or_empty (selectedProfileName st)] else []) @
     [''--new-window'', ''--no-first-run'', ''--no-default-browser-check'', ''about:blank'']"

text \<open>
  \<^verbatim>\<open>launchChromeWithDebugging\<close>: \<open>Inl\<close> when the promise of the spawn rejects, otherwise
  the child's handle and the port of the returned object (\<^verbatim>\<open>port || DEBUG_PORT\<close>).
\<close>

definition launchChromeWithDebugging ::
  "config \<Rightarrow> env \<Rightarrow> string \<Rightarrow> int \<Rightarrow> state \<Rightarrow> (js_error + nat \<times> int) \<times> state" where
  "launchChromeWithDebugging cfg env executable port st =
     (let st1 = st\<lparr>launchedChromeSpawnError := None, launchedChromeExited := False\<rparr>;
          args = buildChromeArgs env port st1;
          st2 = st1\<lparr>spawn_log := spawn_log st1 @ [(executable, args)]\<rparr>
      in case spawn env (tick st2) executable args of
           Inl err \<Rightarrow> (Inl err, (await env st2)\<lparr>launchedChromeSpawnError := Some err\<rparr>)
         | Inr child \<Rightarrow>
             (let st3 = await env st2
              in (Inr (child, if port \<noteq> 0 then port else DEBUG_PORT cfg),
                  st3\<lparr>currentUserDataDir := Some (chromeUserDataRoot env st3)\<rparr>)))"

text \<open>
  The \<^verbatim>\<open>for\<close> loop of \<^verbatim>\<open>waitForDebugPort\<close>, from iteration \<open>i\<close>. Each round checks the
  two flags, probes the port, and sleeps for \<^verbatim>\<open>delayMs\<close> (a suspension point).
\<close>

function waitForDebugPort_loop :: "env \<Rightarrow> int \<Rightarrow> nat \<Rightarrow> nat \<Rightarrow> state \<Rightarrow> bool \<times> state" where
  "waitForDebugPort_loop env port attempts i st =
     (if i < attempts then
        (if launchedChromeSpawnError st \<noteq> None then (False, st)
         else if launchedChromeExited st then (False, st)
         else if fst (checkChromeDebugging env port st) then (True, snd (checkChromeDebugging env port st))
         else waitForDebugPort_loop env port attempts (i + 1)
                (await env (snd (checkChromeDebugging env port st))))
      else (False, st))"
  by pat_completeness auto
termination
  by (relation "measure (\<lambda>(env, port, attempts, i, st). attempts - i)") auto

declare waitForDebugPort_loop.simps [simp del]

definition waitForDebugPort :: "env \<Rightarrow> int \<Rightarrow> nat \<Rightarrow> nat \<Rightarrow> state \<Rightarrow> bool \<times> state" where
  "waitForDebugPort env port attempts delayMs st = waitForDebugPort_loop env port attempts 0 st"

section \<open>Debug session establisher (main.js lines 385-451)\<close>

definition STANDOFF_MESSAGE :: string where
  "STANDOFF_MESSAGE =
     ''Chrome is running but remote debugging is off. Close Chrome or set CHROME_FORCE_KILL=1, then Refresh.''"

text \<open>\<^verbatim>\<open>err?.message || String(err) || 'Failed to launch Chrome'\<close> for a thrown error object.\<close>

definition launchErrorText :: "js_error \<Rightarrow> string" where
  "launchErrorText err =
     (if err_message err \<noteq> [] then err_message err
      else if err_name err \<noteq> [] then err_name err
      else ''Failed to launch Chrome'')"

text \<open>Lines 407-450: what \<^verbatim>\<open>ensureChromeDebugging\<close> does once no port has answered.\<close>

definition ensureChromeDebugging_launch :: "config \<Rightarrow> env \<Rightarrow> state \<Rightarrow> (js_error + bool) \<times> state" where
  "ensureChromeDebugging_launch cfg env st =
     (case chromeRunning env st of
        Inl e \<Rightarrow> (Inl e, st)
      | Inr running \<Rightarrow>
          if running \<and> \<not> FORCE_KILL_CHROME cfg
          then (Inr False, st\<lparr>lastStatusMessage := STANDOFF_MESSAGE\<rparr>)
          else
            (let st1 = forceKillChrome cfg env st;
                 executable = or_else (findChromeExecutable env st1) ''chrome''
             in case launchChromeWithDebugging cfg env executable (DEBUG_PORT cfg) st1 of
                  (Inl err, st2) \<Rightarrow>
                    (Inr False,
                     st2\<lparr>lastStatusMessage := ''Failed to launch Chrome: '' @ launchErrorText err\<rparr>)
                | (Inr (child, port), st2) \<Rightarrow>
                    (let st3 = st2\<lparr>launchedChrome := Some child, currentDebugPort := port\<rparr>
                     in case waitForDebugPort env (currentDebugPort st3) 240 200 st3 of
                          (ok, st4) \<Rightarrow>
                            (case readActiveProfileName env st4 of
                               Inl e \<Rightarrow> (Inl e, st4)
                             | Inr p \<Rightarrow>
                                 (let st5 = st4\<lparr>detectedActiveProfile := p\<rparr>
                                  in if \<not> ok then
                                       (let hint =
                                          (if FORCE_KILL_CHROME cfg
                                           then ''Chrome failed to open the debug port. Check the [CHROME] logs above for errors.''
                                           else ''Chrome may already be running or the profile is locked. Close Chrome or set CHROME_FORCE_KILL=1.'')
                                        in (Inr False,
                                            st5\<lparr>lastStatusMessage :=
                                              ''Failed to launch Chrome remote debugging on port '' @
                                              show_int (currentDebugPort st5) @ ''. '' @ hint\<rparr>))
                                     else
                                       (Inr True,
                                        st5\<lparr>lastStatusMessage :=
                                          ''Launched Chrome with remote debugging on port '' @
                                          show_int (currentDebugPort st5)\<rparr>))))))"

definition ensureChromeDebugging :: "config \<Rightarrow> env \<Rightarrow> state \<Rightarrow> (js_error + bool) \<times> state" where
  "ensureChromeDebugging cfg env st =
     (case checkChromeDebugging env (currentDebugPort st) st of
        (ok1, st1) \<Rightarrow>
          if ok1 then
            (case readActiveProfileName env st1 of
               Inl e \<Rightarrow> (Inl e, st1)
             | Inr p \<Rightarrow>
                 (Inr True,
                  st1\<lparr>detectedActiveProfile := p,
                      lastStatusMessage := ''Connected to Chrome on port '' @ show_int (currentDebugPort st1)\<rparr>))
          else
            (case checkChromeDebugging env (DEBUG_PORT cfg) st1 of
               (ok2, st2) \<Rightarrow>
                 if ok2 then
                   (let st2a = st2\<lparr>currentDebugPort := DEBUG_PORT cfg\<rparr>
                    in case readActiveProfileName env st2a of
                         Inl e \<Rightarrow> (Inl e, st2a)
                       | Inr p \<Rightarrow>
                           (Inr True,
                            st2a\<lparr>detectedActiveProfile := p,
                                 lastStatusMessage := ''Connected to Chrome on port '' @ show_int (DEBUG_PORT cfg)\<rparr>))
                 else
                   (case (if ALT_DEBUG_PORT \<noteq> DEBUG_PORT cfg
                          then checkChromeDebugging env ALT_DEBUG_PORT st2 else (False, st2)) of
                      (ok3, st3) \<Rightarrow>
                        if ok3 then
                          (let st3a = st3\<lparr>currentDebugPort := ALT_DEBUG_PORT\<rparr>
                           in case readActiveProfileName env st3a of
                                Inl e \<Rightarrow> (Inl e, st3a)
                              | Inr p \<Rightarrow>
                                  (Inr True,
                                   st3a\<lparr>detectedActiveProfile := p,
                                        lastStatusMessage := ''Connected to Chrome on port '' @ show_int ALT_DEBUG_PORT\<rparr>))
                        else ensureChromeDebugging_launch cfg env st3)))"

section \<open>Tab tracking engine (main.js lines 453-566)\<close>

definition tabsFromState :: "state \<Rightarrow> tab list" where
  "tabsFromState st = map snd (tabsById st)"

definition sendChromeTabsFromState :: "env \<Rightarrow> state \<Rightarrow> state" where
  "sendChromeTabsFromState env st =
     (if \<not> mainWindow_open env (tick st) then st
      else st\<lparr>sent_tabs := sent_tabs st @ [tabsFromState st]\<rparr>)"

text \<open>\<^verbatim>\<open>stopTabTracking\<close>; an error of \<^verbatim>\<open>cdpClient.close()\<close> is caught and ignored.\<close>

definition stopTabTracking :: "env \<Rightarrow> state \<Rightarrow> state" where
  "stopTabTracking env st =
     (let st1 = st\<lparr>tabsById := [], initialTabIds := {}, tabStateStartedAt := 0, cdpPort := None\<rparr>
      in case cdpClient st1 of
           None \<Rightarrow> st1
         | Some c \<Rightarrow> (await env st1)\<lparr>cdpClient := None\<rparr>)"

definition isDevtools :: "string option \<Rightarrow> bool" where
  "isDevtools u = (case u of None \<Rightarrow> False | Some s \<Rightarrow> startsWith s ''devtools://'')"

text \<open>The seed loop over the targets that \<^verbatim>\<open>Target.getTargets\<close> returned.\<close>

fun seedTabs :: "targetInfo list \<Rightarrow> state \<Rightarrow> state" where
  "seedTabs [] st = st"
| "seedTabs (info # infos) st =
     (if target_type info \<noteq> ''page'' then seedTabs infos st
      else if isDevtools (target_url info) then seedTabs infos st
      else
        (let t = \<lparr>tab_id = targetId info,
                  title = or_empty (target_title info),
                  url = or_empty (target_url info),
                  createdAt = tabStateStartedAt st,
                  isInitial = True\<rparr>
         in seedTabs infos
              (st\<lparr>initialTabIds := insert (tab_id t) (initialTabIds st),
                  tabsById := AList.update (tab_id t) t (tabsById st)\<rparr>)))"

definition targetCreated :: "env \<Rightarrow> targetInfo option \<Rightarrow> state \<Rightarrow> state" where
  "targetCreated env ti st =
     (case ti of
        None \<Rightarrow> st
      | Some info \<Rightarrow>
          if target_type info \<noteq> ''page'' then st
          else if isDevtools (target_url info) then st
          else
            (let ident = targetId info;
                 t = \<lparr>tab_id = ident,
                      title = or_empty (target_title info),
                      url = or_empty (target_url info),
                      createdAt = Date_now env (tick st),
                      isInitial = (ident \<in> initialTabIds st)\<rparr>
             in sendChromeTabsFromState env (st\<lparr>tabsById := AList.update ident t (tabsById st)\<rparr>)))"

definition targetInfoChanged :: "env \<Rightarrow> targetInfo option \<Rightarrow> state \<Rightarrow> state" where
  "targetInfoChanged env ti st =
     (case ti of
        None \<Rightarrow> st
      | Some info \<Rightarrow>
          if target_type info \<noteq> ''page'' then st
          else if isDevtools (target_url info) then st
          else
            (let ident = targetId info;
                 prev = map_of (tabsById st) ident;
                 t = \<lparr>tab_id = ident,
                      title = or_else (target_title info) (case prev of Some p \<Rightarrow> title p | None \<Rightarrow> []),
                      url = or_else (target_url info) (case prev of Some p \<Rightarrow> url p | None \<Rightarrow> []),
                      createdAt =
                        (case prev of
                           Some p \<Rightarrow> if createdAt p \<noteq> 0 then createdAt p else Date_now env (tick st)
                         | None \<Rightarrow> Date_now env (tick st)),
                      isInitial = (case prev of Some p \<Rightarrow> isInitial p | None \<Rightarrow> ident \<in> initialTabIds st)\<rparr>
             in sendChromeTabsFromState env (st\<lparr>tabsById := AList.update ident t (tabsById st)\<rparr>)))"

definition targetDestroyed :: "env \<Rightarrow> string option \<Rightarrow> state \<Rightarrow> state" where
  "targetDestroyed env tid st =
     (if \<not> truthy_str tid then st
      else sendChromeTabsFromState env (st\<lparr>tabsById := AList.delete (or_empty tid) (tabsById st)\<rparr>))"

text \<open>
  The three listeners that one successful start registers, and the delivery of a
  notification: every listener registered for its kind runs, in registration order.
\<close>

definition TRACKING_LISTENERS :: "cdp_subscription list" where
  "TRACKING_LISTENERS = [OnTargetCreated, OnTargetInfoChanged, OnTargetDestroyed]"

fun runListener :: "env \<Rightarrow> cdp_event \<Rightarrow> cdp_subscription \<Rightarrow> state \<Rightarrow> state" where
  "runListener env (TargetCreated ti) OnTargetCreated st = targetCreated env ti st"
| "runListener env (TargetInfoChanged ti) OnTargetInfoChanged st = targetInfoChanged env ti st"
| "runListener env (TargetDestroyed tid) OnTargetDestroyed st = targetDestroyed env tid st"
| "runListener env ev sub st = st"

definition notify :: "env \<Rightarrow> cdp_event \<Rightarrow> state \<Rightarrow> state" where
  "notify env ev st =
     (case cdpClient st of
        None \<Rightarrow> st
      | Some c \<Rightarrow> fold (runListener env ev) (listeners c) st)"

text \<open>The \<^verbatim>\<open>try\<close> block of \<^verbatim>\<open>ensureTabTracking\<close> (lines 495-559).\<close>

definition ensureTabTracking_try :: "env \<Rightarrow> state \<Rightarrow> (js_error + bool) \<times> state" where
  "ensureTabTracking_try env st =
     (case CDP_connect env (tick st) (currentDebugPort st) of
        Inl e \<Rightarrow> (Inl e, await env st)
      | Inr u \<Rightarrow>
          (let st1 = (await env st)\<lparr>cdpClient :=
                       Some \<lparr>client_port = currentDebugPort st, listeners = []\<rparr>\<rparr>
           in case setDiscoverTargets env (tick st1) of
                Inl e \<Rightarrow> (Inl e, await env st1)
              | Inr u \<Rightarrow>
                  (let st2 = await env st1
                   in case getTargets env (tick st2) of
                        Inl e \<Rightarrow> (Inl e, await env st2)
                      | Inr existing \<Rightarrow>
                          (let st3 = await env st2;
                               targetInfos = (case existing of Some infos \<Rightarrow> infos | None \<Rightarrow> []);
                               st4 = seedTabs targetInfos st3;
                               st5 = st4\<lparr>cdpClient :=
                                        map_option (\<lambda>c. c\<lparr>listeners := listeners c @ TRACKING_LISTENERS\<rparr>)
                                          (cdpClient st4)\<rparr>
                           in (Inr True, sendChromeTabsFromState env st5)))))"

definition ensureTabTracking :: "env \<Rightarrow> state \<Rightarrow> bool \<times> state" where
  "ensureTabTracking env st =
     (case checkChromeDebugging env (currentDebugPort st) st of
        (ok, st1) \<Rightarrow>
          if \<not> ok then (False, st1)
          else if cdpClient st1 \<noteq> None \<and> cdpPort st1 = Some (currentDebugPort st1) then (True, st1)
          else
            (let st2 = stopTabTracking env st1;
                 st3 = st2\<lparr>tabStateStartedAt := Date_now env (tick st2),
                           cdpPort := Some (currentDebugPort st2)\<rparr>
             in case ensureTabTracking_try env st3 of
                  (Inr b, st4) \<Rightarrow> (b, st4)
                | (Inl err, st4) \<Rightarrow>
                    (False,
                     stopTabTracking env
                       (st4\<lparr>lastStatusMessage :=
                          (if err_message err \<noteq> [] then err_message err
                           else ''Failed to start live tab tracking'')\<rparr>))))"

text \<open>A run of the program: session establishment, the tracking operations and the
  delivery of protocol notifications, in any order.\<close>

datatype action = EnsureSession | StartTracking | StopTracking | Notify cdp_event

fun exec :: "config \<Rightarrow> env \<Rightarrow> action \<Rightarrow> state \<Rightarrow> state" where
  "exec cfg env EnsureSession st = snd (ensureChromeDebugging cfg env st)"
| "exec cfg env StartTracking st = snd (ensureTabTracking env st)"
| "exec cfg env StopTracking st = stopTabTracking env st"
| "exec cfg env (Notify ev) st = notify env ev st"

definition run :: "config \<Rightarrow> env \<Rightarrow> action list \<Rightarrow> state \<Rightarrow> state" where
  "run cfg env acts st = fold (exec cfg env) acts st"

section \<open>Predicates used in the statements\<close>

text \<open>
  The directory names of the user-data root on the three platforms, the last components
  of the default roots of lines 39-41. A path names a root container when its last
  component is one of them, in any letter case.
\<close>

definition ROOT_CONTAINER_NAMES :: "string list" where
  "ROOT_CONTAINER_NAMES = [''User Data'', ''Chrome'', ''google-chrome'']"

definition namesRootContainer :: "path_ops \<Rightarrow> string \<Rightarrow> bool" where
  "namesRootContainer P p =
     (toLowerCase (path_basename P p) \<in> set (map toLowerCase ROOT_CONTAINER_NAMES))"

text \<open>The state in which \<^verbatim>\<open>ensureChromeDebugging\<close> reaches line 407: after its probes.\<close>

definition after_probes :: "config \<Rightarrow> env \<Rightarrow> state \<Rightarrow> state" where
  "after_probes cfg env st =
     (let st2 = snd (checkChromeDebugging env (DEBUG_PORT cfg)
                  (snd (checkChromeDebugging env (currentDebugPort st) st)))
      in if ALT_DEBUG_PORT \<noteq> DEBUG_PORT cfg then snd (checkChromeDebugging env ALT_DEBUG_PORT st2) else st2)"

text \<open>An open connection carries exactly one set of listeners.\<close>

definition tracking_ok :: "state \<Rightarrow> bool" where
  "tracking_ok st = (case cdpClient st of None \<Rightarrow> True | Some c \<Rightarrow> listeners c = TRACKING_LISTENERS)"

text \<open>Moreover, the registry is empty whenever there is no connection.\<close>

definition registry_connected :: "state \<Rightarrow> bool" where
  "registry_connected st = (tracking_ok st \<and> (cdpClient st = None \<longrightarrow> tabsById st = []))"

text \<open>No registry entry has a URL that starts with the internal-debugger prefix.\<close>

definition no_devtools_entry :: "state \<Rightarrow> bool" where
  "no_devtools_entry st = list_all (\<lambda>kt. \<not> startsWith (url (snd kt)) ''devtools://'') (tabsById st)"

text \<open>
  The registry invariant of the proofs: no entry has a debugger URL and, when \<open>c\<close> is
  set, every entry has a non-zero creation time.
\<close>

definition tab_ok :: "bool \<Rightarrow> tab \<Rightarrow> bool" where
  "tab_ok c t = (\<not> startsWith (url t) ''devtools://'' \<and> (c \<longrightarrow> createdAt t \<noteq> 0))"

definition tabs_ok :: "bool \<Rightarrow> state \<Rightarrow> bool" where
  "tabs_ok c st = list_all (\<lambda>kt. tab_ok c (snd kt)) (tabsById st)"

section \<open>Example worlds\<close>

definition ENOENT :: js_error where
  "ENOENT = \<lparr>err_name = ''Error'', err_message = ''ENOENT: no such file or directory'',
     err_status = None\<rparr>"

definition SyntaxError :: js_error where
  "SyntaxError = \<lparr>err_name = ''SyntaxError'', err_message = ''Unexpected end of JSON input'',
     err_status = None\<rparr>"

definition demo_target :: targetInfo where
  "demo_target = \<lparr>targetId = ''T1'', target_type = ''page'', target_title = Some ''Inbox'',
     target_url = Some ''https://mail.example/''\<rparr>"

definition devtools_target :: targetInfo where
  "devtools_target = \<lparr>targetId = ''T2'', target_type = ''page'', target_title = Some ''DevTools'',
     target_url = Some ''devtools://devtools/bundled/inspector.html''\<rparr>"

text \<open>
  A Linux machine with no Chrome process, no Chrome files on disk, and a browser that
  answers the debug probe on port 9222 and lists two targets.
\<close>

definition demo_env :: env where
  "demo_env =
     \<lparr>process_platform = OtherPlatform,
      path_lib = posix_path,
      env_HOME = Some ''/home/u'',
      env_LOCALAPPDATA = None,
      env_PROGRAMFILES = None,
      env_PROGRAMFILES_X86 = None,
      probe = (\<lambda>t port. port = 9222),
      execSync = (\<lambda>t cmd. Inr []),
      existsSync = (\<lambda>t p. False),
      readFileSync = (\<lambda>t p. Inl ENOENT),
      unlinkSync = (\<lambda>t p. Inr ()),
      JSON_parse = (\<lambda>raw. if raw = ''{}'' then Inr (JObj []) else Inl SyntaxError),
      js_Number = (\<lambda>s. None),
      spawn = (\<lambda>t exe args. Inr 1),
      child_exit = (\<lambda>t. False),
      child_error = (\<lambda>t. None),
      Date_now = (\<lambda>t. 1700000000000 + t),
      mainWindow_open = (\<lambda>t. True),
      CDP_connect = (\<lambda>t port. Inr ()),
      setDiscoverTargets = (\<lambda>t. Inr ()),
      getTargets = (\<lambda>t. Inr (Some [demo_target, devtools_target]))\<rparr>"

text \<open>The same machine with no debug endpoint on any port.\<close>

definition down_env :: env where
  "down_env = demo_env\<lparr>probe := (\<lambda>t port. False)\<rparr>"

text \<open>Only the alternate port 9223 answers.\<close>

definition alt_env :: env where
  "alt_env = demo_env\<lparr>probe := (\<lambda>t port. port = 9223)\<rparr>"

text \<open>No debug endpoint, and \<^verbatim>\<open>pgrep\<close> prints the id of a running Chrome process.\<close>

definition busy_env :: env where
  "busy_env = down_env\<lparr>execSync := (\<lambda>t cmd. Inr ''4242'')\<rparr>"

text \<open>No debug endpoint, no Chrome process, and a stale lock file under the user-data root.\<close>

definition locked_env :: env where
  "locked_env = down_env\<lparr>existsSync := (\<lambda>t p. p = ''/home/u/.config/google-chrome/SingletonLock'')\<rparr>"

text \<open>A Mac on which \<^verbatim>\<open>pgrep\<close> prints the id of a running Chrome process.\<close>

definition mac_env :: env where
  "mac_env = busy_env\<lparr>process_platform := Darwin\<rparr>"

text \<open>
  Two Windows machines, for any path library \<open>P\<close>. On the first, PowerShell counts no
  Chrome process and the only Chrome file on disk is \<^verbatim>\<open>SingletonLock\<close> under the default
  user-data root. On the second, PowerShell cannot be run, \<^verbatim>\<open>tasklist\<close> lists one
  \<^verbatim>\<open>chrome.exe\<close> and there is no Chrome file on disk.
\<close>

definition WIN_LOCALAPPDATA :: string where
  "WIN_LOCALAPPDATA = ''C:'' @ bs @ ''Users'' @ bs @ ''u'' @ bs @ ''AppData'' @ bs @ ''Local''"

definition win_locked_env :: "path_ops \<Rightarrow> env" where
  "win_locked_env P = down_env\<lparr>
     process_platform := Win32,
     path_lib := P,
     env_HOME := None,
     env_LOCALAPPDATA := Some WIN_LOCALAPPDATA,
     execSync := (\<lambda>t cmd. Inr ''0''),
     js_Number := (\<lambda>s. if s = ''0'' then Some 0 else None),
     existsSync := (\<lambda>t p. p = path_join P
        [path_join P [WIN_LOCALAPPDATA, ''Google'', ''Chrome'', ''User Data''], ''SingletonLock''])\<rparr>"

definition TASKLIST_ROW :: string where
  "TASKLIST_ROW = dq @ ''chrome.exe'' @ dq @ '','' @ dq @ ''4242'' @ dq @ '','' @ dq @ ''Console'' @ dq"

definition win_tasklist_env :: "path_ops \<Rightarrow> env" where
  "win_tasklist_env P = down_env\<lparr>
     process_platform := Win32,
     path_lib := P,
     env_HOME := None,
     env_LOCALAPPDATA := Some WIN_LOCALAPPDATA,
     execSync := (\<lambda>t cmd. if cmd = TASKLIST_CMD then Inr TASKLIST_ROW else Inl ENOENT)\<rparr>"

text \<open>No command can be run.\<close>

definition noexec_env :: env where
  "noexec_env = down_env\<lparr>execSync := (\<lambda>t cmd. Inl ENOENT)\<rparr>"

text \<open>The persisted-state file exists but cannot be read; it exists and holds a truncated document.\<close>

definition unreadable_env :: env where
  "unreadable_env = demo_env\<lparr>existsSync := (\<lambda>t p. True)\<rparr>"

definition truncated_env :: env where
  "truncated_env = demo_env\<lparr>existsSync := (\<lambda>t p. True), readFileSync := (\<lambda>t p. Inr ''{'')\<rparr>"

definition demo_config :: config where
  "demo_config = \<lparr>PROFILE_DIR_ENV = None, PROFILE_NAME_ENV = None, FORCE_KILL_CHROME = False,
     ENV_DEBUG_PORT = None\<rparr>"

definition both_config :: config where
  "both_config = demo_config\<lparr>PROFILE_DIR_ENV := Some ''/home/u/.config/google-chrome/Profile 1'',
     PROFILE_NAME_ENV := Some ''Default''\<rparr>"

definition dir_config :: config where
  "dir_config = demo_config\<lparr>PROFILE_DIR_ENV := Some ''/home/u/.config/google-chrome/Profile 1''\<rparr>"

definition root_config :: config where
  "root_config = demo_config\<lparr>PROFILE_DIR_ENV := Some ''/srv/chrome/User Data'',
     PROFILE_NAME_ENV := Some ''Default''\<rparr>"

text \<open>The path \<^verbatim>\<open>/srv/chrome/User Data\<close> followed by a no-break space (U+00A0).\<close>

definition nbsp_config :: config where
  "nbsp_config = demo_config\<lparr>PROFILE_DIR_ENV :=
     Some (''/srv/chrome/User Data'' @ [CHR 0xC2, CHR 0xA0])\<rparr>"

text \<open>The default user-data root of Linux, given as the profile-directory path.\<close>

definition linux_root_config :: config where
  "linux_root_config = demo_config\<lparr>PROFILE_DIR_ENV := Some ''/home/u/.config/google-chrome''\<rparr>"

definition demo_state :: state where
  "demo_state = initial_state demo_config demo_env"

text \<open>The remembered port is 7000.\<close>

definition remembered_state :: state where
  "remembered_state = demo_state\<lparr>currentDebugPort := 7000\<rparr>"

definition demo_tab :: tab where
  "demo_tab = \<lparr>tab_id = ''T1'', title = ''Inbox'', url = ''https://mail.example/'',
     createdAt = 1700000000000, isInitial = True\<rparr>"

text \<open>Tracking is connected to the current port 9222 and the registry holds one tab.\<close>

definition tracked_state :: state where
  "tracked_state = demo_state\<lparr>
     cdpClient := Some \<lparr>client_port = 9222, listeners = TRACKING_LISTENERS\<rparr>,
     cdpPort := Some 9222,
     tabStateStartedAt := 1700000000000,
     tabsById := [(''T1'', demo_tab)],
     initialTabIds := {''T1''}\<rparr>"

text \<open>The launched child has already exited.\<close>

definition exited_state :: state where
  "exited_state = demo_state\<lparr>launchedChrome := Some 1, launchedChromeExited := True\<rparr>"

text \<open>A change notification for the tracked tab that carries a new URL and an empty title.\<close>

definition retitled_target :: targetInfo where
  "retitled_target = \<lparr>targetId = ''T1'', target_type = ''page'', target_title = Some [],
     target_url = Some ''https://mail.example/inbox''\<rparr>"

section \<open>Evaluation rules and frame lemmas\<close>

lemmas world_defs = demo_env_def down_env_def alt_env_def busy_env_def locked_env_def
  mac_env_def win_locked_env_def win_tasklist_env_def WIN_LOCALAPPDATA_def TASKLIST_ROW_def
  noexec_env_def unreadable_env_def truncated_env_def demo_config_def both_config_def
  dir_config_def root_config_def nbsp_config_def linux_root_config_def demo_state_def remembered_state_def exited_state_def
  demo_tab_def tracked_state_def retitled_target_def demo_target_def devtools_target_def
  initial_state_def ENOENT_def SyntaxError_def DEBUG_PORT_def DEFAULT_DEBUG_PORT_def
  ALT_DEBUG_PORT_def TRACKING_LISTENERS_def

lemmas posix_defs = posix_path_def posix_normalize_def posix_basename_def posix_dirname_def
  posix_join_def

lemmas js_defs = js_trim_def trimStart_def trimEnd_def strip_tokens.simps JS_WHITESPACE_def
  toLowerCase_def lower_char_def startsWith_def
  truthy_str_def or_else_def or_empty_def

lemmas profile_defs = resolveProfile_def initialProfileName_def profileDirGiven_def
  chromeUserDataRoot_def defaultChromeUserDataRoot_def getUserDataDir_def

lemmas tracking_defs = ensureTabTracking_def checkChromeDebugging_def await_def
  stopTabTracking_def ensureTabTracking_try_def sendChromeTabsFromState_def tabsFromState_def
  isDevtools_def

lemma await_frame:
  "tick (await env st) = Suc (tick st)"
  "probes (await env st) = probes st"
  "tabsById (await env st) = tabsById st"
  "initialTabIds (await env st) = initialTabIds st"
  "cdpClient (await env st) = cdpClient st"
  "cdpPort (await env st) = cdpPort st"
  "tabStateStartedAt (await env st) = tabStateStartedAt st"
  "currentDebugPort (await env st) = currentDebugPort st"
  "selectedProfileName (await env st) = selectedProfileName st"
  "chromeUserDataRootOverride (await env st) = chromeUserDataRootOverride st"
  "currentUserDataDir (await env st) = currentUserDataDir st"
  "launchedChrome (await env st) = launchedChrome st"
  "detectedActiveProfile (await env st) = detectedActiveProfile st"
  "lastStatusMessage (await env st) = lastStatusMessage st"
  "spawn_log (await env st) = spawn_log st"
  "kill_log (await env st) = kill_log st"
  "unlink_log (await env st) = unlink_log st"
  "sent_tabs (await env st) = sent_tabs st"
  by (simp_all add: await_def)

lemma readActiveProfileName_returns: "\<exists>v. readActiveProfileName env st = Inr v"
  by (simp add: readActiveProfileName_def try_catch_def split: sum.split option.split)

lemma getAvailableProfiles_returns: "\<exists>ps. getAvailableProfiles env st = Inr ps"
  by (simp add: getAvailableProfiles_def try_catch_def split: sum.split)

lemma chromeProcessesRunning_returns: "\<exists>b. chromeProcessesRunning env st = Inr b"
  by (cases "chromeProcessesRunning_try env st") (auto simp: chromeProcessesRunning_def try_catch_def)

lemma seedTabs_frame:
  "cdpClient (seedTabs infos st) = cdpClient st"
  "cdpPort (seedTabs infos st) = cdpPort st"
  "tick (seedTabs infos st) = tick st"
  "currentDebugPort (seedTabs infos st) = currentDebugPort st"
  "tabStateStartedAt (seedTabs infos st) = tabStateStartedAt st"
  "sent_tabs (seedTabs infos st) = sent_tabs st"
  by (induction infos arbitrary: st; simp add: Let_def)+

lemma sendChromeTabsFromState_frame:
  "cdpClient (sendChromeTabsFromState env st) = cdpClient st"
  "cdpPort (sendChromeTabsFromState env st) = cdpPort st"
  "tabsById (sendChromeTabsFromState env st) = tabsById st"
  "currentDebugPort (sendChromeTabsFromState env st) = currentDebugPort st"
  "initialTabIds (sendChromeTabsFromState env st) = initialTabIds st"
  "tabStateStartedAt (sendChromeTabsFromState env st) = tabStateStartedAt st"
  "tick (sendChromeTabsFromState env st) = tick st"
  by (simp_all add: sendChromeTabsFromState_def)

lemma stopTabTracking_frame:
  "cdpClient (stopTabTracking env st) = None"
  "cdpPort (stopTabTracking env st) = None"
  "tabsById (stopTabTracking env st) = []"
  "currentDebugPort (stopTabTracking env st) = currentDebugPort st"
  by (simp_all add: stopTabTracking_def Let_def await_frame split: option.split)

subsection \<open>The polling loop\<close>

lemma loop_bounds:
  "probes (snd (waitForDebugPort_loop env port attempts i st)) \<le> probes st + (attempts - i)
 \<and> tick (snd (waitForDebugPort_loop env port attempts i st)) \<le> tick st + 2 * (attempts - i)"
proof (induction env port attempts i st rule: waitForDebugPort_loop.induct)
  case (1 env port attempts i st)
  show ?case
  proof (cases "i < attempts \<and> launchedChromeSpawnError st = None \<and> \<not> launchedChromeExited st
                 \<and> \<not> fst (checkChromeDebugging env port st)")
    case True
    then have ih: "probes (snd (waitForDebugPort_loop env port attempts (i + 1)
                      (await env (snd (checkChromeDebugging env port st)))))
                 \<le> probes (await env (snd (checkChromeDebugging env port st))) + (attempts - (i + 1))
               \<and> tick (snd (waitForDebugPort_loop env port attempts (i + 1)
                      (await env (snd (checkChromeDebugging env port st)))))
                 \<le> tick (await env (snd (checkChromeDebugging env port st))) + 2 * (attempts - (i + 1))"
      using "1.IH" by simp
    have step: "waitForDebugPort_loop env port attempts i st
        = waitForDebugPort_loop env port attempts (i + 1) (await env (snd (checkChromeDebugging env port st)))"
      using True by (subst waitForDebugPort_loop.simps) simp
    have p: "probes (await env (snd (checkChromeDebugging env port st))) = Suc (probes st)"
            "tick (await env (snd (checkChromeDebugging env port st))) = Suc (Suc (tick st))"
      by (simp_all add: checkChromeDebugging_def await_frame)
    from ih p have "probes (snd (waitForDebugPort_loop env port attempts (i + 1)
                      (await env (snd (checkChromeDebugging env port st)))))
                 \<le> Suc (probes st) + (attempts - (i + 1))
               \<and> tick (snd (waitForDebugPort_loop env port attempts (i + 1)
                      (await env (snd (checkChromeDebugging env port st)))))
                 \<le> Suc (Suc (tick st)) + 2 * (attempts - (i + 1))"
      by (simp only:)
    with True show ?thesis unfolding step by arith
  next
    case False
    then show ?thesis
      by (subst (1 2) waitForDebugPort_loop.simps)
         (auto simp: checkChromeDebugging_def await_frame)
  qed
qed

subsection \<open>Starting the tracking engine\<close>

lemma ensureTabTracking_try_client:
  "ensureTabTracking_try env st = (Inr b, st') \<Longrightarrow> cdpClient st = None \<Longrightarrow>
     b \<and> cdpClient st' = Some \<lparr>client_port = currentDebugPort st, listeners = TRACKING_LISTENERS\<rparr>
       \<and> cdpPort st' = cdpPort st \<and> currentDebugPort st' = currentDebugPort st"
  by (auto simp: ensureTabTracking_try_def Let_def await_frame seedTabs_frame
      sendChromeTabsFromState_frame split: sum.splits)

lemma ensureTabTracking_success:
  assumes ok: "ensureTabTracking env st = (True, st1)" and inv: "tracking_ok st"
  shows "(\<exists>c. cdpClient st1 = Some c \<and> listeners c = TRACKING_LISTENERS)
       \<and> cdpPort st1 = Some (currentDebugPort st1)"
proof -
  let ?s1 = "snd (checkChromeDebugging env (currentDebugPort st) st)"
  let ?s3 = "(stopTabTracking env ?s1)\<lparr>tabStateStartedAt := Date_now env (tick (stopTabTracking env ?s1)),
                cdpPort := Some (currentDebugPort (stopTabTracking env ?s1))\<rparr>"
  have c1: "cdpClient ?s1 = cdpClient st" "cdpPort ?s1 = cdpPort st" "currentDebugPort ?s1 = currentDebugPort st"
    by (simp_all add: checkChromeDebugging_def await_frame)
  have p: "fst (checkChromeDebugging env (currentDebugPort st) st)"
    using ok by (auto simp: ensureTabTracking_def split_beta split: if_splits)
  show ?thesis
  proof (cases "cdpClient ?s1 \<noteq> None \<and> cdpPort ?s1 = Some (currentDebugPort ?s1)")
    case True
    then have "st1 = ?s1" using ok p by (simp add: ensureTabTracking_def split_beta)
    then show ?thesis using True inv c1 by (auto simp: tracking_ok_def)
  next
    case False
    obtain r st4 where r: "ensureTabTracking_try env ?s3 = (r, st4)" by (cases "ensureTabTracking_try env ?s3")
    have "r = Inr True \<and> st1 = st4"
      using ok p False r by (cases r) (auto simp: ensureTabTracking_def split_beta Let_def)
    then have t: "ensureTabTracking_try env ?s3 = (Inr True, st1)" using r by simp
    have n: "cdpClient ?s3 = None" by (simp add: stopTabTracking_frame)
    from ensureTabTracking_try_client [OF t n] show ?thesis
      by (simp add: stopTabTracking_frame)
  qed
qed

subsection \<open>The registry invariant\<close>

lemma list_all_update:
  "Q t \<Longrightarrow> list_all (\<lambda>kt. Q (snd kt)) xs \<Longrightarrow> list_all (\<lambda>kt. Q (snd kt)) (AList.update k t xs)"
  by (induction xs) auto

lemma list_all_delete:
  "list_all (\<lambda>kt. Q (snd kt)) xs \<Longrightarrow> list_all (\<lambda>kt. Q (snd kt)) (AList.delete k xs)"
  by (induction xs) auto

lemma list_all_map_of:
  "list_all (\<lambda>kt. Q (snd kt)) xs \<Longrightarrow> map_of xs k = Some p \<Longrightarrow> Q p"
  by (induction xs) (auto split: if_splits)

lemma fresh_url_ok: "\<not> isDevtools u \<Longrightarrow> \<not> startsWith (or_empty u) ''devtools://''"
  by (cases u) (auto simp: isDevtools_def or_empty_def or_else_def startsWith_def)

lemma merged_url_ok:
  "\<not> isDevtools u \<Longrightarrow> \<not> startsWith d ''devtools://'' \<Longrightarrow> \<not> startsWith (or_else u d) ''devtools://''"
  by (cases u) (auto simp: isDevtools_def or_else_def)

lemma empty_not_devtools: "\<not> startsWith [] ''devtools://''"
  by (simp add: startsWith_def)

lemma seedTabs_tabs_ok:
  "tabs_ok c st \<Longrightarrow> (c \<longrightarrow> tabStateStartedAt st \<noteq> 0) \<Longrightarrow> tabs_ok c (seedTabs infos st)"
proof (induction infos arbitrary: st)
  case Nil
  then show ?case by simp
next
  case (Cons info infos)
  show ?case
  proof (cases "target_type info \<noteq> ''page'' \<or> isDevtools (target_url info)")
    case True
    then show ?thesis using Cons by auto
  next
    case False
    let ?t = "\<lparr>tab_id = targetId info, title = or_empty (target_title info),
               url = or_empty (target_url info), createdAt = tabStateStartedAt st, isInitial = True\<rparr>"
    let ?st = "st\<lparr>initialTabIds := insert (targetId info) (initialTabIds st),
                  tabsById := AList.update (targetId info) ?t (tabsById st)\<rparr>"
    have "tab_ok c ?t" using False Cons.prems(2) by (simp add: tab_ok_def fresh_url_ok)
    then have "tabs_ok c ?st" using Cons.prems(1) by (simp add: tabs_ok_def list_all_update)
    moreover have "c \<longrightarrow> tabStateStartedAt ?st \<noteq> 0" using Cons.prems(2) by simp
    ultimately have "tabs_ok c (seedTabs infos ?st)" by (rule Cons.IH)
    then show ?thesis using False by (simp add: Let_def)
  qed
qed

lemma tabs_ok_put:
  "tab_ok c t \<Longrightarrow> tabs_ok c st \<Longrightarrow>
     tabs_ok c (sendChromeTabsFromState env (st\<lparr>tabsById := AList.update k t (tabsById st)\<rparr>))"
  by (simp add: tabs_ok_def sendChromeTabsFromState_frame list_all_update)

lemma targetCreated_tabs_ok:
  "tabs_ok c st \<Longrightarrow> (c \<longrightarrow> (\<forall>t. Date_now env t \<noteq> 0)) \<Longrightarrow> tabs_ok c (targetCreated env ti st)"
  by (auto simp: targetCreated_def Let_def tab_ok_def fresh_url_ok intro!: tabs_ok_put
      split: option.split)

lemma targetInfoChanged_tabs_ok:
  assumes "tabs_ok c st" and "c \<longrightarrow> (\<forall>t. Date_now env t \<noteq> 0)"
  shows "tabs_ok c (targetInfoChanged env ti st)"
proof (cases ti)
  case None
  then show ?thesis using assms by (simp add: targetInfoChanged_def)
next
  case (Some info)
  show ?thesis
  proof (cases "target_type info \<noteq> ''page'' \<or> isDevtools (target_url info)")
    case True
    then show ?thesis using assms Some by (auto simp: targetInfoChanged_def)
  next
    case False
    have prev: "map_of (tabsById st) (targetId info) = Some p \<Longrightarrow> tab_ok c p" for p
      using assms(1) list_all_map_of [of "tab_ok c" "tabsById st"] by (simp add: tabs_ok_def)
    let ?prev = "map_of (tabsById st) (targetId info)"
    let ?t = "\<lparr>tab_id = targetId info,
               title = or_else (target_title info) (case ?prev of Some p \<Rightarrow> title p | None \<Rightarrow> []),
               url = or_else (target_url info) (case ?prev of Some p \<Rightarrow> url p | None \<Rightarrow> []),
               createdAt = (case ?prev of
                              Some p \<Rightarrow> if createdAt p \<noteq> 0 then createdAt p else Date_now env (tick st)
                            | None \<Rightarrow> Date_now env (tick st)),
               isInitial = (case ?prev of Some p \<Rightarrow> isInitial p | None \<Rightarrow> targetId info \<in> initialTabIds st)\<rparr>"
    have "tab_ok c ?t"
      using False assms(2) prev
      by (cases ?prev) (auto simp: tab_ok_def merged_url_ok empty_not_devtools)
    then have "tabs_ok c (sendChromeTabsFromState env
                  (st\<lparr>tabsById := AList.update (targetId info) ?t (tabsById st)\<rparr>))"
      using assms(1) by (rule tabs_ok_put)
    then show ?thesis using False Some by (simp add: targetInfoChanged_def Let_def)
  qed
qed

lemma targetDestroyed_tabs_ok: "tabs_ok c st \<Longrightarrow> tabs_ok c (targetDestroyed env tid st)"
  by (simp add: targetDestroyed_def tabs_ok_def sendChromeTabsFromState_frame list_all_delete)

lemma runListener_tabs_ok:
  "tabs_ok c st \<Longrightarrow> (c \<longrightarrow> (\<forall>t. Date_now env t \<noteq> 0)) \<Longrightarrow> tabs_ok c (runListener env ev sub st)"
  by (cases "(env, ev, sub, st)" rule: runListener.cases)
     (auto simp: targetCreated_tabs_ok targetInfoChanged_tabs_ok targetDestroyed_tabs_ok)

lemma fold_runListener_tabs_ok:
  "tabs_ok c st \<Longrightarrow> (c \<longrightarrow> (\<forall>t. Date_now env t \<noteq> 0)) \<Longrightarrow> tabs_ok c (fold (runListener env ev) subs st)"
  by (induction subs arbitrary: st) (auto simp: runListener_tabs_ok)

lemma notify_tabs_ok:
  "tabs_ok c st \<Longrightarrow> (c \<longrightarrow> (\<forall>t. Date_now env t \<noteq> 0)) \<Longrightarrow> tabs_ok c (notify env ev st)"
  by (auto simp: notify_def fold_runListener_tabs_ok split: option.split)

lemma stopTabTracking_tabs_ok: "tabs_ok c (stopTabTracking env st)"
  by (simp add: tabs_ok_def stopTabTracking_def Let_def await_frame split: option.split)

lemma tabs_ok_cong: "tabsById st' = tabsById st \<Longrightarrow> tabs_ok c st' = tabs_ok c st"
  by (simp add: tabs_ok_def)

lemma ensureTabTracking_try_tabs_ok:
  assumes "tabs_ok c st" and "c \<longrightarrow> tabStateStartedAt st \<noteq> 0"
  shows "tabs_ok c (snd (ensureTabTracking_try env st))"
proof -
  have seed: "tabs_ok c (seedTabs infos (await env (await env ((await env st)\<lparr>cdpClient := cl\<rparr>))))" for infos cl
    using assms by (intro seedTabs_tabs_ok) (simp_all add: tabs_ok_def await_frame)
  show ?thesis
    using assms seed
    by (auto simp: ensureTabTracking_try_def Let_def sendChromeTabsFromState_frame
        tabs_ok_def await_frame split: sum.split)
qed

lemma ensureTabTracking_tabs_ok:
  assumes "tabs_ok c st" and "c \<longrightarrow> (\<forall>t. Date_now env t \<noteq> 0)"
  shows "tabs_ok c (snd (ensureTabTracking env st))"
proof -
  let ?s1 = "snd (checkChromeDebugging env (currentDebugPort st) st)"
  let ?s3 = "(stopTabTracking env ?s1)\<lparr>tabStateStartedAt := Date_now env (tick (stopTabTracking env ?s1)),
                cdpPort := Some (currentDebugPort (stopTabTracking env ?s1))\<rparr>"
  have s1: "tabs_ok c ?s1" using assms(1) by (simp add: tabs_ok_def checkChromeDebugging_def await_frame)
  have "tabs_ok c ?s3" using stopTabTracking_tabs_ok [of c env ?s1] by (simp add: tabs_ok_def)
  moreover have "c \<longrightarrow> tabStateStartedAt ?s3 \<noteq> 0" using assms(2) by simp
  ultimately have t: "tabs_ok c (snd (ensureTabTracking_try env ?s3))"
    by (rule ensureTabTracking_try_tabs_ok)
  show ?thesis
    using s1 t stopTabTracking_tabs_ok
    by (auto simp: ensureTabTracking_def split_beta Let_def split: sum.split prod.split)
qed


lemma removeLockFiles_tabsById: "tabsById (removeLockFiles env fs st) = tabsById st"
  by (induction fs arbitrary: st) (auto split: sum.split)

lemma forceKillChrome_tabsById: "tabsById (forceKillChrome cfg env st) = tabsById st"
  by (simp add: forceKillChrome_def Let_def removeLockFiles_tabsById split: sum.split)

lemma launchChromeWithDebugging_tabsById:
  "tabsById (snd (launchChromeWithDebugging cfg env exe port st)) = tabsById st"
  by (simp add: launchChromeWithDebugging_def Let_def await_frame split: sum.split)

lemma waitForDebugPort_loop_tabsById:
  "tabsById (snd (waitForDebugPort_loop env port attempts i st)) = tabsById st"
proof (induction env port attempts i st rule: waitForDebugPort_loop.induct)
  case (1 env port attempts i st)
  show ?case
    using "1.IH"
    by (subst waitForDebugPort_loop.simps) (simp add: checkChromeDebugging_def await_frame)
qed

lemma launch_result_tabsById:
  "launchChromeWithDebugging cfg env exe port st = (r, st') \<Longrightarrow> tabsById st' = tabsById st"
  using launchChromeWithDebugging_tabsById [of cfg env exe port st] by simp

lemma wait_result_tabsById:
  "waitForDebugPort_loop env port attempts i st = (ok, st') \<Longrightarrow> tabsById st' = tabsById st"
  using waitForDebugPort_loop_tabsById [of env port attempts i st] by simp

lemma ensureChromeDebugging_launch_tabsById:
  "tabsById (snd (ensureChromeDebugging_launch cfg env st)) = tabsById st"
  by (auto simp: ensureChromeDebugging_launch_def Let_def waitForDebugPort_def
      forceKillChrome_tabsById split: sum.split prod.split
      dest!: launch_result_tabsById wait_result_tabsById)

lemma ensureChromeDebugging_tabsById:
  "tabsById (snd (ensureChromeDebugging cfg env st)) = tabsById st"
  by (simp add: ensureChromeDebugging_def split_beta Let_def checkChromeDebugging_def await_frame
      ensureChromeDebugging_launch_tabsById split: sum.split)

lemma exec_tabs_ok:
  "tabs_ok c st \<Longrightarrow> (c \<longrightarrow> (\<forall>t. Date_now env t \<noteq> 0)) \<Longrightarrow> tabs_ok c (exec cfg env a st)"
  by (cases a)
     (simp_all add: ensureTabTracking_tabs_ok stopTabTracking_tabs_ok notify_tabs_ok
        tabs_ok_cong [OF ensureChromeDebugging_tabsById])

lemma run_tabs_ok:
  "tabs_ok c st \<Longrightarrow> (c \<longrightarrow> (\<forall>t. Date_now env t \<noteq> 0)) \<Longrightarrow> tabs_ok c (run cfg env acts st)"
  unfolding run_def by (induction acts arbitrary: st) (simp_all add: exec_tabs_ok)

lemma initial_tabs_ok: "tabs_ok c (initial_state cfg env)"
  by (simp add: tabs_ok_def initial_state_def)

subsection \<open>The merge of a change notification\<close>

lemma changed_merge_entry:
  assumes entry: "map_of (tabsById st) (targetId info) = Some prev"
    and page: "target_type info = ''page''"
    and stamp: "createdAt prev \<noteq> 0"
  shows "\<exists>t. map_of (tabsById (targetInfoChanged env (Some info) st)) (targetId info) = Some t
           \<and> (\<not> truthy_str (target_title info) \<longrightarrow> title t = title prev)
           \<and> (\<not> truthy_str (target_url info) \<longrightarrow> url t = url prev)
           \<and> createdAt t = createdAt prev
           \<and> isInitial t = isInitial prev"
proof (cases "isDevtools (target_url info)")
  case True
  then show ?thesis using entry page by (simp add: targetInfoChanged_def)
next
  case False
  have o: "\<not> truthy_str v \<Longrightarrow> or_else v d = d" for v d
    by (cases v) (auto simp: truthy_str_def or_else_def)
  show ?thesis
    using False entry page stamp
    by (simp add: targetInfoChanged_def Let_def sendChromeTabsFromState_frame update_conv' o)
qed

lemma reachable_createdAt:
  assumes "\<forall>t. Date_now env t \<noteq> 0"
    and "tabsById st0 = []"
    and "map_of (tabsById (run cfg env acts st0)) k = Some p"
  shows "createdAt p \<noteq> 0"
proof -
  have "tabs_ok True st0" using assms(2) by (simp add: tabs_ok_def)
  then have "tabs_ok True (run cfg env acts st0)"
    using assms(1) by (simp add: run_tabs_ok)
  then have "tab_ok True p"
    using assms(3) list_all_map_of [of "tab_ok True"] by (simp add: tabs_ok_def)
  then show ?thesis by (simp add: tab_ok_def)
qed

subsection \<open>One set of listeners per connection\<close>

lemma removeLockFiles_cdpClient: "cdpClient (removeLockFiles env fs st) = cdpClient st"
  by (induction fs arbitrary: st) (auto split: sum.split)

lemma forceKillChrome_cdpClient: "cdpClient (forceKillChrome cfg env st) = cdpClient st"
  by (simp add: forceKillChrome_def Let_def removeLockFiles_cdpClient split: sum.split)

lemma launch_result_cdpClient:
  "launchChromeWithDebugging cfg env exe port st = (r, st') \<Longrightarrow> cdpClient st' = cdpClient st"
  by (auto simp: launchChromeWithDebugging_def Let_def await_frame split: sum.splits)

lemma waitForDebugPort_loop_cdpClient:
  "cdpClient (snd (waitForDebugPort_loop env port attempts i st)) = cdpClient st"
proof (induction env port attempts i st rule: waitForDebugPort_loop.induct)
  case (1 env port attempts i st)
  show ?case
    using "1.IH"
    by (subst waitForDebugPort_loop.simps) (simp add: checkChromeDebugging_def await_frame)
qed

lemma wait_result_cdpClient:
  "waitForDebugPort_loop env port attempts i st = (ok, st') \<Longrightarrow> cdpClient st' = cdpClient st"
  using waitForDebugPort_loop_cdpClient [of env port attempts i st] by simp

lemma ensureChromeDebugging_launch_cdpClient:
  "cdpClient (snd (ensureChromeDebugging_launch cfg env st)) = cdpClient st"
  by (auto simp: ensureChromeDebugging_launch_def Let_def waitForDebugPort_def
      forceKillChrome_cdpClient split: sum.split prod.split
      dest!: launch_result_cdpClient wait_result_cdpClient)

lemma ensureChromeDebugging_cdpClient:
  "cdpClient (snd (ensureChromeDebugging cfg env st)) = cdpClient st"
  by (simp add: ensureChromeDebugging_def split_beta Let_def checkChromeDebugging_def await_frame
      ensureChromeDebugging_launch_cdpClient split: sum.split)

lemma runListener_cdpClient: "cdpClient (runListener env ev sub st) = cdpClient st"
  by (cases "(env, ev, sub, st)" rule: runListener.cases)
     (simp_all add: targetCreated_def targetInfoChanged_def targetDestroyed_def Let_def
        sendChromeTabsFromState_frame split: option.split)

lemma fold_runListener_cdpClient: "cdpClient (fold (runListener env ev) subs st) = cdpClient st"
  by (induction subs arbitrary: st) (simp_all add: runListener_cdpClient)

lemma notify_cdpClient: "cdpClient (notify env ev st) = cdpClient st"
  by (simp add: notify_def fold_runListener_cdpClient split: option.split)

lemma ensureTabTracking_tracking_ok:
  assumes "tracking_ok st"
  shows "tracking_ok (snd (ensureTabTracking env st))"
proof (cases "fst (ensureTabTracking env st)")
  case True
  then have "ensureTabTracking env st = (True, snd (ensureTabTracking env st))"
    by (simp add: prod_eq_iff)
  from ensureTabTracking_success [OF this assms] show ?thesis
    by (auto simp: tracking_ok_def)
next
  case False
  let ?s1 = "snd (checkChromeDebugging env (currentDebugPort st) st)"
  let ?s3 = "(stopTabTracking env ?s1)\<lparr>tabStateStartedAt := Date_now env (tick (stopTabTracking env ?s1)),
                cdpPort := Some (currentDebugPort (stopTabTracking env ?s1))\<rparr>"
  have c1: "cdpClient ?s1 = cdpClient st" by (simp add: checkChromeDebugging_def await_frame)
  obtain r st4 where r: "ensureTabTracking_try env ?s3 = (r, st4)"
    by (cases "ensureTabTracking_try env ?s3")
  have n: "cdpClient ?s3 = None" by (simp add: stopTabTracking_frame)
  have "cdpClient (snd (ensureTabTracking env st)) = cdpClient st
      \<or> cdpClient (snd (ensureTabTracking env st)) = None"
  proof (cases r)
    case (Inl err)
    then show ?thesis
      using r c1
      by (simp add: ensureTabTracking_def split_beta Let_def stopTabTracking_frame)
  next
    case (Inr b)
    then have "b" using ensureTabTracking_try_client [of env ?s3 b st4] r n by simp
    then show ?thesis
      using False r Inr c1
      by (auto simp: ensureTabTracking_def split_beta Let_def split: if_splits)
  qed
  then show ?thesis using assms by (auto simp: tracking_ok_def)
qed

lemma exec_tracking_ok: "tracking_ok st \<Longrightarrow> tracking_ok (exec cfg env a st)"
  by (cases a)
     (simp_all add: ensureTabTracking_tracking_ok,
      simp_all add: tracking_ok_def ensureChromeDebugging_cdpClient stopTabTracking_frame
        notify_cdpClient)

lemma run_tracking_ok: "tracking_ok st \<Longrightarrow> tracking_ok (run cfg env acts st)"
  unfolding run_def by (induction acts arbitrary: st) (simp_all add: exec_tracking_ok)

subsection \<open>Notifications reach the handlers once\<close>

lemma ensureTabTracking_connected:
  assumes "registry_connected st"
  shows "registry_connected (snd (ensureTabTracking env st))"
proof -
  have ok: "tracking_ok (snd (ensureTabTracking env st))"
    using assms by (simp add: registry_connected_def ensureTabTracking_tracking_ok)
  let ?s1 = "snd (checkChromeDebugging env (currentDebugPort st) st)"
  let ?s3 = "(stopTabTracking env ?s1)\<lparr>tabStateStartedAt := Date_now env (tick (stopTabTracking env ?s1)),
                cdpPort := Some (currentDebugPort (stopTabTracking env ?s1))\<rparr>"
  have c1: "cdpClient ?s1 = cdpClient st" "tabsById ?s1 = tabsById st"
    by (simp_all add: checkChromeDebugging_def await_frame)
  obtain r st4 where r: "ensureTabTracking_try env ?s3 = (r, st4)"
    by (cases "ensureTabTracking_try env ?s3")
  have n: "cdpClient ?s3 = None" by (simp add: stopTabTracking_frame)
  have "cdpClient (snd (ensureTabTracking env st)) = None \<longrightarrow> tabsById (snd (ensureTabTracking env st)) = []"
  proof (cases r)
    case (Inl err)
    then show ?thesis
      using r c1 assms
      by (auto simp: ensureTabTracking_def split_beta Let_def stopTabTracking_frame
          registry_connected_def)
  next
    case (Inr b)
    then have "cdpClient st4 \<noteq> None" using ensureTabTracking_try_client [of env ?s3 b st4] r n by simp
    then show ?thesis
      using r Inr c1 assms
      by (auto simp: ensureTabTracking_def split_beta Let_def registry_connected_def)
  qed
  then show ?thesis using ok by (simp add: registry_connected_def)
qed

lemma exec_connected: "registry_connected st \<Longrightarrow> registry_connected (exec cfg env a st)"
proof (cases a)
  case EnsureSession
  assume "registry_connected st"
  then show ?thesis using EnsureSession
    by (simp add: registry_connected_def tracking_ok_def ensureChromeDebugging_cdpClient
        ensureChromeDebugging_tabsById)
next
  case StartTracking
  assume "registry_connected st"
  then show ?thesis using StartTracking by (simp add: ensureTabTracking_connected)
next
  case StopTracking
  then show ?thesis by (simp add: registry_connected_def tracking_ok_def stopTabTracking_frame)
next
  case (Notify ev)
  assume c: "registry_connected st"
  show ?thesis
  proof (cases "cdpClient st")
    case None
    then show ?thesis using c Notify by (simp add: notify_def)
  next
    case (Some cl)
    then show ?thesis using c Notify
      by (simp add: registry_connected_def tracking_ok_def notify_cdpClient)
  qed
qed

lemma run_connected: "registry_connected st \<Longrightarrow> registry_connected (run cfg env acts st)"
  unfolding run_def by (induction acts arbitrary: st) (simp_all add: exec_connected)

lemma notify_changed:
  "cdpClient st = Some c \<Longrightarrow> listeners c = TRACKING_LISTENERS \<Longrightarrow>
     notify env (TargetInfoChanged ti) st = targetInfoChanged env ti st"
  by (simp add: notify_def TRACKING_LISTENERS_def)

lemma reachable_notify_changed:
  assumes "tabsById st0 = []" and "cdpClient st0 = None"
    and "map_of (tabsById (run cfg env acts st0)) k = Some p"
  shows "notify env (TargetInfoChanged ti) (run cfg env acts st0)
       = targetInfoChanged env ti (run cfg env acts st0)"
proof -
  have "registry_connected st0" using assms(1,2) by (simp add: registry_connected_def tracking_ok_def)
  then have c: "registry_connected (run cfg env acts st0)" by (rule run_connected)
  have "tabsById (run cfg env acts st0) \<noteq> []" using assms(3) by auto
  then obtain cl where "cdpClient (run cfg env acts st0) = Some cl" "listeners cl = TRACKING_LISTENERS"
    using c by (auto simp: registry_connected_def tracking_ok_def)
  then show ?thesis by (rule notify_changed)
qed

section \<open>Claims about the profile resolver\<close>

text \<open>
  \<^bold>\<open>C1\<close> (amended). When a profile-directory path that does not name a root container
  and a profile name are both configured, the profile name is the configured one and the
  user-data root is the parent of the path: the explicit profile name overrides the
  basename of the path, which is the profile name only when no profile name is
  configured. A profile name configured without a path leaves the user-data root to the
  platform default. When the path names the root container \<^verbatim>\<open>User Data\<close> itself (in any
  letter case), the path is the user-data root and no profile name is derived from it.
  Nothing is said here of a path that names a root container of another name.
\<close>

theorem profile_precedence:
  "(let P = path_lib env;
        n = path_normalize P (js_trim (or_empty (PROFILE_DIR_ENV cfg)));
        st0 = initial_state cfg env
    in (profileDirGiven cfg \<and> \<not> namesRootContainer P n
          \<and> truthy_str (PROFILE_NAME_ENV cfg) \<longrightarrow>
          selectedProfileName st0 = PROFILE_NAME_ENV cfg
        \<and> chromeUserDataRootOverride st0 = Some (path_dirname P n))
     \<and> (profileDirGiven cfg \<and> \<not> namesRootContainer P n
          \<and> \<not> truthy_str (PROFILE_NAME_ENV cfg) \<longrightarrow>
          selectedProfileName st0 = Some (path_basename P n)
        \<and> chromeUserDataRootOverride st0 = Some (path_dirname P n))
     \<and> (profileDirGiven cfg \<and> toLowerCase (path_basename P n) = ''user data'' \<longrightarrow>
          namesRootContainer P n
        \<and> selectedProfileName st0 = initialProfileName cfg
        \<and> chromeUserDataRootOverride st0 = Some n
        \<and> chromeUserDataRoot env st0 = (if n = [] then defaultChromeUserDataRoot env else n))
     \<and> (\<not> profileDirGiven cfg \<longrightarrow>
          selectedProfileName st0 = initialProfileName cfg
        \<and> chromeUserDataRootOverride st0 = None
        \<and> chromeUserDataRoot env st0 = defaultChromeUserDataRoot env))"
proof -
  have l: "toLowerCase ''User Data'' = ''user data''"
    by (simp add: toLowerCase_def lower_char_def)
  have r: "toLowerCase b = ''user data'' \<Longrightarrow>
             toLowerCase b \<in> set (map toLowerCase ROOT_CONTAINER_NAMES)" for b
    using l by (simp add: ROOT_CONTAINER_NAMES_def)
  show ?thesis
    using r
    by (auto simp: Let_def initial_state_def resolveProfile_def initialProfileName_def
        chromeUserDataRoot_def or_else_def truthy_str_def namesRootContainer_def)
qed

theorem profile_precedence_witness:
  "selectedProfileName (initial_state both_config demo_env) = Some ''Default''
 \<and> chromeUserDataRootOverride (initial_state both_config demo_env) = Some ''/home/u/.config/google-chrome''
 \<and> selectedProfileName (initial_state dir_config demo_env) = Some ''Profile 1''
 \<and> chromeUserDataRootOverride (initial_state dir_config demo_env) = Some ''/home/u/.config/google-chrome''
 \<and> selectedProfileName (initial_state root_config demo_env) = Some ''Default''
 \<and> chromeUserDataRootOverride (initial_state root_config demo_env) = Some ''/srv/chrome/User Data''
 \<and> selectedProfileName (initial_state nbsp_config demo_env) = None
 \<and> chromeUserDataRoot demo_env (initial_state nbsp_config demo_env) = ''/srv/chrome/User Data''
 \<and> selectedProfileName (initial_state demo_config demo_env) = None
 \<and> chromeUserDataRoot demo_env (initial_state demo_config demo_env) = ''/home/u/.config/google-chrome''"
proof -
  have both: "profileDirGiven both_config \<and> truthy_str (PROFILE_NAME_ENV both_config)
      \<and> \<not> namesRootContainer posix_path (path_normalize posix_path
            (js_trim (or_empty (PROFILE_DIR_ENV both_config))))"
    by (simp add: profileDirGiven_def namesRootContainer_def ROOT_CONTAINER_NAMES_def
        both_config_def demo_config_def posix_defs js_defs)
  have dir: "profileDirGiven dir_config \<and> \<not> truthy_str (PROFILE_NAME_ENV dir_config)
      \<and> \<not> namesRootContainer posix_path (path_normalize posix_path
            (js_trim (or_empty (PROFILE_DIR_ENV dir_config))))"
    by (simp add: profileDirGiven_def namesRootContainer_def ROOT_CONTAINER_NAMES_def
        dir_config_def demo_config_def posix_defs js_defs)
  have root: "profileDirGiven root_config
      \<and> toLowerCase (path_basename posix_path (path_normalize posix_path
            (js_trim (or_empty (PROFILE_DIR_ENV root_config))))) = ''user data''"
    by (simp add: profileDirGiven_def root_config_def demo_config_def posix_defs js_defs)
  have nbsp: "profileDirGiven nbsp_config
      \<and> toLowerCase (path_basename posix_path (path_normalize posix_path
            (js_trim (or_empty (PROFILE_DIR_ENV nbsp_config))))) = ''user data''"
    by (simp add: profileDirGiven_def nbsp_config_def demo_config_def posix_defs js_defs)
  have none: "\<not> profileDirGiven demo_config"
    by (simp add: profileDirGiven_def demo_config_def js_defs)
  have lib: "path_lib demo_env = posix_path" by (simp add: demo_env_def)
  have a: "selectedProfileName (initial_state both_config demo_env) = PROFILE_NAME_ENV both_config
         \<and> chromeUserDataRootOverride (initial_state both_config demo_env)
             = Some (path_dirname posix_path (path_normalize posix_path
                 (js_trim (or_empty (PROFILE_DIR_ENV both_config)))))"
    using profile_precedence [of demo_env both_config] both by (simp add: Let_def lib)
  have b: "selectedProfileName (initial_state dir_config demo_env)
             = Some (path_basename posix_path (path_normalize posix_path
                 (js_trim (or_empty (PROFILE_DIR_ENV dir_config)))))
         \<and> chromeUserDataRootOverride (initial_state dir_config demo_env)
             = Some (path_dirname posix_path (path_normalize posix_path
                 (js_trim (or_empty (PROFILE_DIR_ENV dir_config)))))"
    using profile_precedence [of demo_env dir_config] dir by (simp add: Let_def lib)
  have c: "selectedProfileName (initial_state root_config demo_env) = initialProfileName root_config
         \<and> chromeUserDataRootOverride (initial_state root_config demo_env)
             = Some (path_normalize posix_path (js_trim (or_empty (PROFILE_DIR_ENV root_config))))"
    using profile_precedence [of demo_env root_config] root by (simp add: Let_def lib)
  have e: "selectedProfileName (initial_state nbsp_config demo_env) = initialProfileName nbsp_config
         \<and> chromeUserDataRoot demo_env (initial_state nbsp_config demo_env)
             = (if path_normalize posix_path (js_trim (or_empty (PROFILE_DIR_ENV nbsp_config))) = []
                then defaultChromeUserDataRoot demo_env
                else path_normalize posix_path (js_trim (or_empty (PROFILE_DIR_ENV nbsp_config))))"
    using profile_precedence [of demo_env nbsp_config] nbsp by (simp add: Let_def lib)
  have d: "selectedProfileName (initial_state demo_config demo_env) = initialProfileName demo_config
         \<and> chromeUserDataRoot demo_env (initial_state demo_config demo_env)
             = defaultChromeUserDataRoot demo_env"
    using profile_precedence [of demo_env demo_config] none by (simp add: Let_def lib)
  have a': "selectedProfileName (initial_state both_config demo_env) = Some ''Default''
          \<and> chromeUserDataRootOverride (initial_state both_config demo_env)
              = Some ''/home/u/.config/google-chrome''"
    using a by (simp add: both_config_def demo_config_def posix_defs js_defs)
  have b': "selectedProfileName (initial_state dir_config demo_env) = Some ''Profile 1''
          \<and> chromeUserDataRootOverride (initial_state dir_config demo_env)
              = Some ''/home/u/.config/google-chrome''"
    using b by (simp add: dir_config_def demo_config_def posix_defs js_defs)
  have c': "selectedProfileName (initial_state root_config demo_env) = Some ''Default''
          \<and> chromeUserDataRootOverride (initial_state root_config demo_env)
              = Some ''/srv/chrome/User Data''"
    using c by (simp add: initialProfileName_def root_config_def demo_config_def posix_defs js_defs)
  have e': "selectedProfileName (initial_state nbsp_config demo_env) = None
          \<and> chromeUserDataRoot demo_env (initial_state nbsp_config demo_env)
              = ''/srv/chrome/User Data''"
    using e by (simp add: initialProfileName_def nbsp_config_def demo_config_def posix_defs js_defs)
  have d': "selectedProfileName (initial_state demo_config demo_env) = None
          \<and> chromeUserDataRoot demo_env (initial_state demo_config demo_env)
              = ''/home/u/.config/google-chrome''"
    using d
    by (simp add: initialProfileName_def defaultChromeUserDataRoot_def demo_config_def
        demo_env_def posix_defs js_defs)
  show ?thesis using a' b' c' d' e' by simp
qed

text \<open>
  The claim as first stated fails in two ways. With the path
  \<^verbatim>\<open>/home/u/.config/google-chrome/Profile 1\<close> and the profile name \<^verbatim>\<open>Default\<close> both
  configured, the basename of the path is \<^verbatim>\<open>Profile 1\<close>, yet the selected profile is
  \<^verbatim>\<open>Default\<close>. And the path \<^verbatim>\<open>/home/u/.config/google-chrome\<close>, which is the default
  user-data root of that machine, is not used as the root: the root becomes
  \<^verbatim>\<open>/home/u/.config\<close> and \<^verbatim>\<open>google-chrome\<close> is taken for a profile name.
\<close>

theorem profile_precedence_counterexample:
  "profileDirGiven both_config
 \<and> PROFILE_NAME_ENV both_config = Some ''Default''
 \<and> path_basename posix_path (path_normalize posix_path
      (js_trim (or_empty (PROFILE_DIR_ENV both_config)))) = ''Profile 1''
 \<and> selectedProfileName (initial_state both_config demo_env) = Some ''Default''
 \<and> selectedProfileName (initial_state both_config demo_env) \<noteq> Some ''Profile 1''
 \<and> PROFILE_DIR_ENV linux_root_config = Some (defaultChromeUserDataRoot demo_env)
 \<and> chromeUserDataRoot demo_env (initial_state linux_root_config demo_env) = ''/home/u/.config''
 \<and> chromeUserDataRoot demo_env (initial_state linux_root_config demo_env)
      \<noteq> ''/home/u/.config/google-chrome''
 \<and> selectedProfileName (initial_state linux_root_config demo_env) = Some ''google-chrome''"
  by (simp add: world_defs profile_defs posix_defs js_defs Let_def)

text \<open>
  \<^bold>\<open>C8\<close>. Whether the persisted-state file is missing, unreadable or not valid JSON,
  \<^verbatim>\<open>readActiveProfileName\<close> returns \<^verbatim>\<open>null\<close> and \<^verbatim>\<open>getAvailableProfiles\<close> returns the empty
  list; and in every world both return a value rather than throw.
\<close>

theorem metadata_degradation:
  "(\<not> existsSync env (tick st) (path_join (path_lib env) [getUserDataDir env st, ''Local State'']) \<longrightarrow>
      readActiveProfileName env st = Inr JNull)
 \<and> (readFileSync env (tick st) (path_join (path_lib env) [getUserDataDir env st, ''Local State'']) = Inl e \<longrightarrow>
      readActiveProfileName env st = Inr JNull)
 \<and> (readFileSync env (tick st) (path_join (path_lib env) [getUserDataDir env st, ''Local State'']) = Inr raw
      \<and> JSON_parse env raw = Inl e \<longrightarrow>
      readActiveProfileName env st = Inr JNull)
 \<and> (\<not> existsSync env (tick st) (path_join (path_lib env) [chromeUserDataRoot env st, ''Local State'']) \<longrightarrow>
      getAvailableProfiles env st = Inr [])
 \<and> (readFileSync env (tick st) (path_join (path_lib env) [chromeUserDataRoot env st, ''Local State'']) = Inl e \<longrightarrow>
      getAvailableProfiles env st = Inr [])
 \<and> (readFileSync env (tick st) (path_join (path_lib env) [chromeUserDataRoot env st, ''Local State'']) = Inr raw
      \<and> JSON_parse env raw = Inl e \<longrightarrow>
      getAvailableProfiles env st = Inr [])
 \<and> (\<exists>v. readActiveProfileName env st = Inr v)
 \<and> (\<exists>ps. getAvailableProfiles env st = Inr ps)"
  using readActiveProfileName_returns [of env st] getAvailableProfiles_returns [of env st]
  by (simp add: readActiveProfileName_def readActiveProfileName_try_def getAvailableProfiles_def
      getAvailableProfiles_try_def try_catch_def Let_def)

theorem metadata_degradation_witness:
  "(\<forall>p. \<not> existsSync demo_env (tick demo_state) p)
 \<and> readActiveProfileName demo_env demo_state = Inr JNull
 \<and> getAvailableProfiles demo_env demo_state = Inr []
 \<and> (\<forall>p. readFileSync unreadable_env (tick demo_state) p = Inl ENOENT)
 \<and> readActiveProfileName unreadable_env demo_state = Inr JNull
 \<and> getAvailableProfiles unreadable_env demo_state = Inr []
 \<and> (\<forall>p. readFileSync truncated_env (tick demo_state) p = Inr ''{'')
 \<and> JSON_parse truncated_env ''{'' = Inl SyntaxError
 \<and> readActiveProfileName truncated_env demo_state = Inr JNull
 \<and> getAvailableProfiles truncated_env demo_state = Inr []"
  using metadata_degradation [of demo_env demo_state]
    metadata_degradation [where env = unreadable_env and st = demo_state and e = ENOENT]
    metadata_degradation [where env = truncated_env and st = demo_state and raw = "''{''"
      and e = SyntaxError]
  by (simp add: demo_env_def unreadable_env_def truncated_env_def)

section \<open>Claims about the conflict detector and session establishment\<close>

text \<open>
  \<^bold>\<open>C4\<close> (amended). The conflict detector of \<^verbatim>\<open>ensureChromeDebugging\<close> reports a conflict
  exactly when process enumeration finds the browser, or the platform is Windows and a
  singleton-lock artifact is present; on the other platforms the lock artifacts are not
  consulted. Process enumeration is \<^verbatim>\<open>pgrep -x\<close> for \<^verbatim>\<open>chrome\<close> on Linux and for
  \<^verbatim>\<open>Google Chrome\<close> on macOS, which finds the browser when it prints anything but
  white space; on Windows it is the PowerShell count of \<^verbatim>\<open>chrome\<close> processes when
  that is a finite number, and otherwise a row for \<^verbatim>\<open>chrome.exe\<close> in the output of
  \<^verbatim>\<open>tasklist\<close>. A lock artifact is present when \<^verbatim>\<open>SingletonLock\<close>, \<^verbatim>\<open>SingletonSocket\<close> or
  \<^verbatim>\<open>SingletonCookie\<close> exists in the user-data root or, when a profile is selected, in the
  profile's subdirectory of the root. Neither signal throws: a command that cannot be run
  counts as finding nothing.
\<close>

theorem conflict_detector_signals:
  "(let t = tick st;
        P = path_lib env;
        root = chromeUserDataRoot env st;
        lockIn = (\<lambda>dir. existsSync env t (path_join P [dir, ''SingletonLock''])
                      \<or> existsSync env t (path_join P [dir, ''SingletonSocket''])
                      \<or> existsSync env t (path_join P [dir, ''SingletonCookie'']));
        locked = (lockIn root
                  \<or> (truthy_str (selectedProfileName st)
                      \<and> lockIn (path_join P [root, or_empty (selectedProfileName st)])));
        prints = (\<lambda>cmd. case execSync env t cmd of Inr out \<Rightarrow> js_trim out \<noteq> [] | Inl e \<Rightarrow> False);
        tasklist =
          (case execSync env t
                  (''tasklist /FI '' @ [CHR 0x22] @ ''IMAGENAME eq chrome.exe'' @ [CHR 0x22] @ '' /FO CSV /NH'') of
             Inr out \<Rightarrow> js_includes (toLowerCase out) ([CHR 0x22] @ ''chrome.exe'' @ [CHR 0x22])
           | Inl e \<Rightarrow> False);
        counted =
          (case execSync env t
                  (''powershell -NoProfile -Command '' @ [CHR 0x22] @
                   ''(Get-Process chrome -ErrorAction SilentlyContinue).Count'' @ [CHR 0x22]) of
             Inr out \<Rightarrow> js_Number env (js_trim out)
           | Inl e \<Rightarrow> None);
        enumerated =
          (case process_platform env of
             Win32 \<Rightarrow> (case counted of Some n \<Rightarrow> 0 < n | None \<Rightarrow> tasklist)
           | Darwin \<Rightarrow> prints (''pgrep -x '' @ [CHR 0x22] @ ''Google Chrome'' @ [CHR 0x22] @ '' || true'')
           | OtherPlatform \<Rightarrow> prints ''pgrep -x chrome || true'')
    in chromeProcessesRunning env st = Inr enumerated
     \<and> chromeProfileLikelyLocked env st = Inr locked
     \<and> chromeRunning env st = Inr (enumerated \<or> (process_platform env = Win32 \<and> locked))
     \<and> ((\<forall>cmd. \<exists>e. execSync env t cmd = Inl e) \<longrightarrow> \<not> enumerated))"
proof -
  let ?t = "tick st"
  let ?P = "path_lib env"
  have lock: "chromeProfileLikelyLocked env st =
      Inr ((existsSync env ?t (path_join ?P [chromeUserDataRoot env st, ''SingletonLock''])
            \<or> existsSync env ?t (path_join ?P [chromeUserDataRoot env st, ''SingletonSocket''])
            \<or> existsSync env ?t (path_join ?P [chromeUserDataRoot env st, ''SingletonCookie'']))
           \<or> (truthy_str (selectedProfileName st)
               \<and> (existsSync env ?t (path_join ?P
                       [path_join ?P [chromeUserDataRoot env st, or_empty (selectedProfileName st)],
                        ''SingletonLock''])
                  \<or> existsSync env ?t (path_join ?P
                       [path_join ?P [chromeUserDataRoot env st, or_empty (selectedProfileName st)],
                        ''SingletonSocket''])
                  \<or> existsSync env ?t (path_join ?P
                       [path_join ?P [chromeUserDataRoot env st, or_empty (selectedProfileName st)],
                        ''SingletonCookie'']))))"
    by (auto simp: chromeProfileLikelyLocked_def chromeProfileLikelyLocked_try_def try_catch_def
        lockCandidates_def Let_def)
  have enum: "chromeProcessesRunning env st =
      Inr (case process_platform env of
             Win32 \<Rightarrow>
               (case (case execSync env ?t PS_COUNT_CMD of
                        Inr out \<Rightarrow> js_Number env (js_trim out) | Inl e \<Rightarrow> None) of
                  Some n \<Rightarrow> 0 < n
                | None \<Rightarrow>
                    (case execSync env ?t TASKLIST_CMD of
                       Inr out \<Rightarrow> js_includes (toLowerCase out) (dq @ ''chrome.exe'' @ dq)
                     | Inl e \<Rightarrow> False))
           | Darwin \<Rightarrow>
               (case execSync env ?t PGREP_DARWIN_CMD of
                  Inr out \<Rightarrow> js_trim out \<noteq> [] | Inl e \<Rightarrow> False)
           | OtherPlatform \<Rightarrow>
               (case execSync env ?t PGREP_CMD of
                  Inr out \<Rightarrow> js_trim out \<noteq> [] | Inl e \<Rightarrow> False))"
    by (simp add: chromeProcessesRunning_def chromeProcessesRunning_try_def powershellCount_def
        try_catch_def split: platform.split sum.split option.split)
  have run: "chromeRunning env st =
      Inr (chromeProcessesRunning env st = Inr True
           \<or> (process_platform env = Win32 \<and> chromeProfileLikelyLocked env st = Inr True))"
    using enum lock by (simp add: chromeRunning_def)
  have fail: "(\<forall>cmd. \<exists>e. execSync env ?t cmd = Inl e) \<longrightarrow> chromeProcessesRunning env st = Inr False"
  proof
    assume a: "\<forall>cmd. \<exists>e. execSync env ?t cmd = Inl e"
    obtain e1 where e1: "execSync env ?t PS_COUNT_CMD = Inl e1" using a by blast
    obtain e2 where e2: "execSync env ?t TASKLIST_CMD = Inl e2" using a by blast
    obtain e3 where e3: "execSync env ?t PGREP_DARWIN_CMD = Inl e3" using a by blast
    obtain e4 where e4: "execSync env ?t PGREP_CMD = Inl e4" using a by blast
    show "chromeProcessesRunning env st = Inr False"
      unfolding enum using e1 e2 e3 e4 by (simp split: platform.split)
  qed
  note cmds = PS_COUNT_CMD_def TASKLIST_CMD_def PGREP_DARWIN_CMD_def PGREP_CMD_def dq_def
  note enum' = enum [unfolded cmds]
  note fail' = fail [unfolded enum, unfolded cmds]
  show ?thesis
    unfolding Let_def
    using lock enum' run fail' by simp
qed

theorem conflict_detector_signals_witness:
  "chromeRunning busy_env demo_state = Inr True
 \<and> chromeRunning mac_env demo_state = Inr True
 \<and> (\<forall>P. chromeProcessesRunning (win_locked_env P) (initial_state demo_config (win_locked_env P)) = Inr False
        \<and> chromeProfileLikelyLocked (win_locked_env P) (initial_state demo_config (win_locked_env P)) = Inr True
        \<and> chromeRunning (win_locked_env P) (initial_state demo_config (win_locked_env P)) = Inr True)
 \<and> (\<forall>P. chromeProcessesRunning (win_tasklist_env P) (initial_state demo_config (win_tasklist_env P)) = Inr True
        \<and> chromeRunning (win_tasklist_env P) (initial_state demo_config (win_tasklist_env P)) = Inr True)
 \<and> (\<forall>cmd. \<exists>e. execSync noexec_env (tick demo_state) cmd = Inl e)
 \<and> chromeProcessesRunning noexec_env demo_state = Inr False
 \<and> chromeRunning noexec_env demo_state = Inr False"
proof -
  have linux: "chromeRunning busy_env demo_state = Inr True"
    using conflict_detector_signals [of demo_state busy_env]
    by (simp add: Let_def world_defs js_defs)
  have mac: "chromeRunning mac_env demo_state = Inr True"
    using conflict_detector_signals [of demo_state mac_env]
    by (simp add: Let_def world_defs js_defs)
  have win1: "chromeProcessesRunning (win_locked_env P) (initial_state demo_config (win_locked_env P)) = Inr False
        \<and> chromeProfileLikelyLocked (win_locked_env P) (initial_state demo_config (win_locked_env P)) = Inr True
        \<and> chromeRunning (win_locked_env P) (initial_state demo_config (win_locked_env P)) = Inr True" for P
    using conflict_detector_signals [of "initial_state demo_config (win_locked_env P)" "win_locked_env P"]
    by (simp add: Let_def world_defs profile_defs js_defs bs_def)
  have win2: "chromeProcessesRunning (win_tasklist_env P) (initial_state demo_config (win_tasklist_env P)) = Inr True
        \<and> chromeRunning (win_tasklist_env P) (initial_state demo_config (win_tasklist_env P)) = Inr True" for P
    using conflict_detector_signals [of "initial_state demo_config (win_tasklist_env P)" "win_tasklist_env P"]
    by (simp add: Let_def world_defs profile_defs js_defs TASKLIST_CMD_def dq_def)
  have h: "\<forall>cmd. \<exists>e. execSync noexec_env (tick demo_state) cmd = Inl e"
    by (simp add: noexec_env_def down_env_def demo_env_def)
  have none: "chromeProcessesRunning noexec_env demo_state = Inr False
            \<and> chromeRunning noexec_env demo_state = Inr False"
    using conflict_detector_signals [of demo_state noexec_env] h
    by (simp add: Let_def noexec_env_def down_env_def demo_env_def)
  show ?thesis using linux mac win1 win2 h none by blast
qed

text \<open>
  The claim as first stated fails off Windows: on Linux, with no Chrome process and a
  lock file under the user-data root, the lock signal fires and no conflict is reported.
\<close>

theorem lock_signal_unused_counterexample:
  "process_platform locked_env = OtherPlatform
 \<and> chromeProcessesRunning locked_env demo_state = Inr False
 \<and> chromeProfileLikelyLocked locked_env demo_state = Inr True
 \<and> chromeRunning locked_env demo_state = Inr False"
  by (simp add: chromeRunning_def chromeProcessesRunning_def chromeProcessesRunning_try_def
      chromeProfileLikelyLocked_def chromeProfileLikelyLocked_try_def try_catch_def
      lockCandidates_def PGREP_CMD_def world_defs profile_defs posix_defs js_defs Let_def)

text \<open>
  \<^bold>\<open>C2\<close>. \<^verbatim>\<open>ensureChromeDebugging\<close> probes the remembered port, then the default port, then
  the alternate port, and adopts the first that answers. In particular, when the
  remembered port does not answer and the default port does, it returns true, the current
  debug port is the default port, and no process is spawned and no kill command is run.
\<close>

theorem port_fallback_order:
  "(probe env (tick st) (currentDebugPort st) \<longrightarrow>
      fst (ensureChromeDebugging cfg env st) = Inr True
    \<and> currentDebugPort (snd (ensureChromeDebugging cfg env st)) = currentDebugPort st
    \<and> spawn_log (snd (ensureChromeDebugging cfg env st)) = spawn_log st)
 \<and> (\<not> probe env (tick st) (currentDebugPort st) \<and> probe env (Suc (tick st)) (DEBUG_PORT cfg) \<longrightarrow>
      fst (ensureChromeDebugging cfg env st) = Inr True
    \<and> currentDebugPort (snd (ensureChromeDebugging cfg env st)) = DEBUG_PORT cfg
    \<and> spawn_log (snd (ensureChromeDebugging cfg env st)) = spawn_log st
    \<and> kill_log (snd (ensureChromeDebugging cfg env st)) = kill_log st)
 \<and> (\<not> probe env (tick st) (currentDebugPort st) \<and> \<not> probe env (Suc (tick st)) (DEBUG_PORT cfg)
      \<and> ALT_DEBUG_PORT \<noteq> DEBUG_PORT cfg \<and> probe env (Suc (Suc (tick st))) ALT_DEBUG_PORT \<longrightarrow>
      fst (ensureChromeDebugging cfg env st) = Inr True
    \<and> currentDebugPort (snd (ensureChromeDebugging cfg env st)) = ALT_DEBUG_PORT
    \<and> spawn_log (snd (ensureChromeDebugging cfg env st)) = spawn_log st)"
proof -
  let ?s1 = "snd (checkChromeDebugging env (currentDebugPort st) st)"
  let ?s2 = "snd (checkChromeDebugging env (DEBUG_PORT cfg) ?s1)"
  let ?s3 = "snd (checkChromeDebugging env ALT_DEBUG_PORT ?s2)"
  obtain v1 where v1: "readActiveProfileName env ?s1 = Inr v1"
    using readActiveProfileName_returns by blast
  obtain v2 where v2: "readActiveProfileName env (?s2\<lparr>currentDebugPort := DEBUG_PORT cfg\<rparr>) = Inr v2"
    using readActiveProfileName_returns by blast
  obtain v3 where v3: "readActiveProfileName env (?s3\<lparr>currentDebugPort := ALT_DEBUG_PORT\<rparr>) = Inr v3"
    using readActiveProfileName_returns by blast
  show ?thesis
    using v1 v2 v3
    by (simp add: ensureChromeDebugging_def split_beta Let_def checkChromeDebugging_def await_frame)
qed

theorem port_fallback_order_witness:
  "\<not> probe demo_env (tick remembered_state) (currentDebugPort remembered_state)
 \<and> probe demo_env (Suc (tick remembered_state)) (DEBUG_PORT demo_config)
 \<and> currentDebugPort remembered_state = 7000
 \<and> fst (ensureChromeDebugging demo_config demo_env remembered_state) = Inr True
 \<and> currentDebugPort (snd (ensureChromeDebugging demo_config demo_env remembered_state)) = 9222
 \<and> spawn_log (snd (ensureChromeDebugging demo_config demo_env remembered_state)) = []
 \<and> probe demo_env (tick demo_state) (currentDebugPort demo_state)
 \<and> fst (ensureChromeDebugging demo_config demo_env demo_state) = Inr True
 \<and> probe alt_env (Suc (Suc (tick demo_state))) ALT_DEBUG_PORT
 \<and> currentDebugPort (snd (ensureChromeDebugging demo_config alt_env demo_state)) = 9223"
  using port_fallback_order [of demo_env remembered_state demo_config]
    port_fallback_order [of demo_env demo_state demo_config]
    port_fallback_order [of alt_env demo_state demo_config]
  by (simp add: world_defs)

text \<open>
  \<^bold>\<open>C3\<close>. When every probe of \<^verbatim>\<open>ensureChromeDebugging\<close> fails, the conflict detector
  reports a running browser and force-kill is not enabled, the operation returns false,
  the status message says that Chrome is running and names \<^verbatim>\<open>CHROME_FORCE_KILL=1\<close>, and
  no process is spawned and no kill command is run.
\<close>

theorem conflict_standoff:
  assumes "\<not> probe env (tick st) (currentDebugPort st)"
    and "\<not> probe env (Suc (tick st)) (DEBUG_PORT cfg)"
    and "ALT_DEBUG_PORT \<noteq> DEBUG_PORT cfg \<longrightarrow> \<not> probe env (Suc (Suc (tick st))) ALT_DEBUG_PORT"
    and "chromeRunning env (after_probes cfg env st) = Inr True"
    and "\<not> FORCE_KILL_CHROME cfg"
  shows "fst (ensureChromeDebugging cfg env st) = Inr False
       \<and> lastStatusMessage (snd (ensureChromeDebugging cfg env st)) = STANDOFF_MESSAGE
       \<and> js_includes STANDOFF_MESSAGE ''Chrome is running''
       \<and> js_includes STANDOFF_MESSAGE ''CHROME_FORCE_KILL=1''
       \<and> spawn_log (snd (ensureChromeDebugging cfg env st)) = spawn_log st
       \<and> kill_log (snd (ensureChromeDebugging cfg env st)) = kill_log st"
proof -
  have m1: "js_includes STANDOFF_MESSAGE ''Chrome is running''"
    by (simp add: STANDOFF_MESSAGE_def startsWith_def)
  have m2: "js_includes STANDOFF_MESSAGE ''CHROME_FORCE_KILL=1''"
    by (simp add: STANDOFF_MESSAGE_def startsWith_def)
  have r: "ensureChromeDebugging cfg env st = ensureChromeDebugging_launch cfg env (after_probes cfg env st)"
    using assms(1-3)
    by (simp add: ensureChromeDebugging_def after_probes_def split_beta Let_def
        checkChromeDebugging_def await_frame)
  have l: "ensureChromeDebugging_launch cfg env (after_probes cfg env st)
         = (Inr False, (after_probes cfg env st)\<lparr>lastStatusMessage := STANDOFF_MESSAGE\<rparr>)"
    using assms(4,5) by (simp add: ensureChromeDebugging_launch_def)
  have f: "spawn_log (after_probes cfg env st) = spawn_log st"
          "kill_log (after_probes cfg env st) = kill_log st"
    by (simp_all add: after_probes_def Let_def checkChromeDebugging_def await_frame)
  show ?thesis using m1 m2 r l f by simp
qed

theorem conflict_standoff_witness:
  "\<not> probe busy_env (tick demo_state) (currentDebugPort demo_state)
 \<and> \<not> probe busy_env (Suc (tick demo_state)) (DEBUG_PORT demo_config)
 \<and> \<not> probe busy_env (Suc (Suc (tick demo_state))) ALT_DEBUG_PORT
 \<and> chromeRunning busy_env (after_probes demo_config busy_env demo_state) = Inr True
 \<and> \<not> FORCE_KILL_CHROME demo_config
 \<and> fst (ensureChromeDebugging demo_config busy_env demo_state) = Inr False
 \<and> lastStatusMessage (snd (ensureChromeDebugging demo_config busy_env demo_state)) = STANDOFF_MESSAGE
 \<and> spawn_log (snd (ensureChromeDebugging demo_config busy_env demo_state)) = []"
proof -
  have p: "\<not> probe busy_env (tick demo_state) (currentDebugPort demo_state)"
          "\<not> probe busy_env (Suc (tick demo_state)) (DEBUG_PORT demo_config)"
          "ALT_DEBUG_PORT \<noteq> DEBUG_PORT demo_config \<longrightarrow> \<not> probe busy_env (Suc (Suc (tick demo_state))) ALT_DEBUG_PORT"
          "\<not> FORCE_KILL_CHROME demo_config"
    by (simp_all add: world_defs)
  have c: "chromeRunning busy_env (after_probes demo_config busy_env demo_state) = Inr True"
    by (simp add: chromeRunning_def chromeProcessesRunning_def chromeProcessesRunning_try_def
        try_catch_def PGREP_CMD_def world_defs js_defs)
  have s: "spawn_log demo_state = []" by (simp add: world_defs)
  show ?thesis
    using conflict_standoff [OF p(1) p(2) p(3) c p(4)] p c s by (simp add: ALT_DEBUG_PORT_def DEBUG_PORT_def DEFAULT_DEBUG_PORT_def demo_config_def)
qed

text \<open>
  \<^bold>\<open>C9\<close>. \<^verbatim>\<open>waitForDebugPort\<close> issues at most \<open>attempts\<close> probes and passes at most two
  suspension points per attempt, and an iteration that finds the spawn-error flag or the
  exit flag set returns false at once, with no probe. The loop is a total function: the
  wait always returns.
\<close>

theorem wait_for_port_bounded:
  "probes (snd (waitForDebugPort env port attempts delayMs st)) \<le> probes st + attempts
 \<and> tick (snd (waitForDebugPort env port attempts delayMs st)) \<le> tick st + 2 * attempts
 \<and> (i < attempts \<and> (launchedChromeSpawnError st \<noteq> None \<or> launchedChromeExited st) \<longrightarrow>
       waitForDebugPort_loop env port attempts i st = (False, st))
 \<and> (0 < attempts \<and> (launchedChromeSpawnError st \<noteq> None \<or> launchedChromeExited st) \<longrightarrow>
       waitForDebugPort env port attempts delayMs st = (False, st))"
proof -
  have b: "probes (snd (waitForDebugPort env port attempts delayMs st)) \<le> probes st + attempts
         \<and> tick (snd (waitForDebugPort env port attempts delayMs st)) \<le> tick st + 2 * attempts"
    using loop_bounds [of env port attempts 0 st] by (simp add: waitForDebugPort_def)
  have f: "j < attempts \<and> (launchedChromeSpawnError st \<noteq> None \<or> launchedChromeExited st) \<longrightarrow>
       waitForDebugPort_loop env port attempts j st = (False, st)" for j
    by (subst waitForDebugPort_loop.simps) auto
  show ?thesis using b f [of i] f [of 0] by (simp add: waitForDebugPort_def)
qed

theorem wait_for_port_bounded_witness:
  "(0::nat) < 240
 \<and> launchedChromeExited exited_state
 \<and> waitForDebugPort down_env 9222 240 200 exited_state = (False, exited_state)
 \<and> probes (snd (waitForDebugPort down_env 9222 240 200 demo_state)) \<le> 240
 \<and> tick (snd (waitForDebugPort down_env 9222 240 200 demo_state)) \<le> 480"
  using wait_for_port_bounded [of down_env 9222 240 200 exited_state 0]
    wait_for_port_bounded [of down_env 9222 240 200 demo_state 0]
  by (simp add: exited_state_def demo_state_def initial_state_def)

section \<open>Claims about the tab tracking engine\<close>

text \<open>
  \<^bold>\<open>C10\<close>. When the first probe of \<^verbatim>\<open>ensureTabTracking\<close> fails, it returns false and the
  protocol connection, the tab registry, the set of initial ids, the tracking port and the
  tracking start time are what they were; nothing is sent to the window.
\<close>

theorem failed_probe_keeps_tracking_state:
  assumes "\<not> probe env (tick st) (currentDebugPort st)"
  shows "fst (ensureTabTracking env st) = False
       \<and> cdpClient (snd (ensureTabTracking env st)) = cdpClient st
       \<and> tabsById (snd (ensureTabTracking env st)) = tabsById st
       \<and> initialTabIds (snd (ensureTabTracking env st)) = initialTabIds st
       \<and> cdpPort (snd (ensureTabTracking env st)) = cdpPort st
       \<and> tabStateStartedAt (snd (ensureTabTracking env st)) = tabStateStartedAt st
       \<and> sent_tabs (snd (ensureTabTracking env st)) = sent_tabs st"
  using assms by (simp add: ensureTabTracking_def checkChromeDebugging_def await_frame)

theorem failed_probe_keeps_tracking_state_witness:
  "\<not> probe down_env (tick tracked_state) (currentDebugPort tracked_state)
 \<and> fst (ensureTabTracking down_env tracked_state) = False
 \<and> cdpClient (snd (ensureTabTracking down_env tracked_state))
     = Some \<lparr>client_port = 9222, listeners = TRACKING_LISTENERS\<rparr>
 \<and> tabsById (snd (ensureTabTracking down_env tracked_state)) = [(''T1'', demo_tab)]
 \<and> initialTabIds (snd (ensureTabTracking down_env tracked_state)) = {''T1''}
 \<and> cdpPort (snd (ensureTabTracking down_env tracked_state)) = Some 9222"
proof -
  have h: "\<not> probe down_env (tick tracked_state) (currentDebugPort tracked_state)"
    by (simp add: down_env_def demo_env_def)
  show ?thesis
    using failed_probe_keeps_tracking_state [OF h] h
    by (simp add: tracked_state_def demo_state_def initial_state_def)
qed

text \<open>
  \<^bold>\<open>C5\<close> (amended). In every state in which tracking is connected to the current port,
  a call of \<^verbatim>\<open>ensureTabTracking\<close> whose probe of that port succeeds returns true and
  changes nothing but the clock and the probe count: the connection with its listeners,
  the registry and the initial ids stay as they were and nothing is sent. Hence, when one
  call has returned true and the probe of a second call succeeds, the second call returns
  true as well and the connection still carries exactly one set of listeners. In every
  state of a run from the initial state there is no connection or a connection with
  exactly one set of listeners. (When the probe fails the call returns false; that case is
  C10.)
\<close>

theorem tracking_start_idempotent:
  "(cdpClient st \<noteq> None \<and> cdpPort st = Some (currentDebugPort st)
      \<and> probe env (tick st) (currentDebugPort st) \<longrightarrow>
      ensureTabTracking env st = (True, await env (st\<lparr>probes := Suc (probes st)\<rparr>))
    \<and> cdpClient (snd (ensureTabTracking env st)) = cdpClient st
    \<and> tabsById (snd (ensureTabTracking env st)) = tabsById st
    \<and> initialTabIds (snd (ensureTabTracking env st)) = initialTabIds st
    \<and> sent_tabs (snd (ensureTabTracking env st)) = sent_tabs st)
 \<and> (tracking_ok st \<and> ensureTabTracking env st = (True, st1)
      \<and> probe env (tick st1) (currentDebugPort st1) \<longrightarrow>
      fst (ensureTabTracking env st1) = True
    \<and> (\<exists>c. cdpClient st1 = Some c \<and> listeners c = TRACKING_LISTENERS)
    \<and> cdpClient (snd (ensureTabTracking env st1)) = cdpClient st1
    \<and> tabsById (snd (ensureTabTracking env st1)) = tabsById st1)
 \<and> tracking_ok (run cfg env acts (initial_state cfg env))"
proof -
  have a: "cdpClient s \<noteq> None \<and> cdpPort s = Some (currentDebugPort s)
      \<and> probe env (tick s) (currentDebugPort s) \<longrightarrow>
      ensureTabTracking env s = (True, await env (s\<lparr>probes := Suc (probes s)\<rparr>))" for s
    by (simp add: ensureTabTracking_def checkChromeDebugging_def await_frame)
  have b: "tracking_ok st \<and> ensureTabTracking env st = (True, st1) \<longrightarrow>
      (\<exists>c. cdpClient st1 = Some c \<and> listeners c = TRACKING_LISTENERS)
      \<and> cdpPort st1 = Some (currentDebugPort st1)"
    using ensureTabTracking_success [of env st st1] by blast
  have c: "tracking_ok (run cfg env acts (initial_state cfg env))"
    by (rule run_tracking_ok) (simp add: tracking_ok_def initial_state_def)
  show ?thesis
    using a [of st] a [of st1] b c by (auto simp: await_frame)
qed

theorem tracking_start_idempotent_witness:
  "cdpClient tracked_state \<noteq> None
 \<and> cdpPort tracked_state = Some (currentDebugPort tracked_state)
 \<and> probe demo_env (tick tracked_state) (currentDebugPort tracked_state)
 \<and> fst (ensureTabTracking demo_env tracked_state) = True
 \<and> cdpClient (snd (ensureTabTracking demo_env tracked_state)) = cdpClient tracked_state
 \<and> tabsById (snd (ensureTabTracking demo_env tracked_state)) = [(''T1'', demo_tab)]
 \<and> tracking_ok demo_state
 \<and> fst (ensureTabTracking demo_env demo_state) = True
 \<and> fst (ensureTabTracking demo_env (snd (ensureTabTracking demo_env demo_state))) = True
 \<and> cdpClient (snd (ensureTabTracking demo_env (snd (ensureTabTracking demo_env demo_state))))
     = Some \<lparr>client_port = 9222, listeners = TRACKING_LISTENERS\<rparr>"
proof -
  let ?st1 = "snd (ensureTabTracking demo_env demo_state)"
  have first: "fst (ensureTabTracking demo_env demo_state) = True"
    by (simp add: tracking_defs world_defs profile_defs js_defs Let_def)
  then have run1: "ensureTabTracking demo_env demo_state = (True, ?st1)"
    by (simp add: prod_eq_iff)
  have ok0: "tracking_ok demo_state" by (simp add: tracking_ok_def world_defs)
  have cl: "cdpClient ?st1 = Some \<lparr>client_port = 9222, listeners = TRACKING_LISTENERS\<rparr>"
    by (simp add: tracking_defs world_defs profile_defs js_defs Let_def)
  have port1: "currentDebugPort ?st1 = 9222"
    by (simp add: tracking_defs world_defs profile_defs js_defs Let_def)
  have probe1: "probe demo_env (tick ?st1) (currentDebugPort ?st1)"
    unfolding port1 by (simp add: demo_env_def)
  have t: "cdpClient tracked_state \<noteq> None
         \<and> cdpPort tracked_state = Some (currentDebugPort tracked_state)
         \<and> probe demo_env (tick tracked_state) (currentDebugPort tracked_state)
         \<and> tabsById tracked_state = [(''T1'', demo_tab)]"
    by (simp add: world_defs)
  have a: "fst (ensureTabTracking demo_env tracked_state) = True
         \<and> cdpClient (snd (ensureTabTracking demo_env tracked_state)) = cdpClient tracked_state
         \<and> tabsById (snd (ensureTabTracking demo_env tracked_state)) = [(''T1'', demo_tab)]"
    using tracking_start_idempotent [of tracked_state demo_env tracked_state] t
    by (simp add: await_frame)
  have b: "fst (ensureTabTracking demo_env ?st1) = True
         \<and> cdpClient (snd (ensureTabTracking demo_env ?st1)) = cdpClient ?st1"
    using tracking_start_idempotent [of demo_state demo_env ?st1] run1 ok0 probe1 by blast
  show ?thesis using a b t first ok0 cl by simp
qed

text \<open>
  The claim as first stated fails when the browser has gone away: tracking is connected
  to the current port, the probe fails, and the call returns false.
\<close>

theorem connected_start_fails_counterexample:
  "cdpClient tracked_state \<noteq> None
 \<and> cdpPort tracked_state = Some (currentDebugPort tracked_state)
 \<and> fst (ensureTabTracking down_env tracked_state) = False"
  by (simp add: tracking_defs world_defs)

text \<open>
  \<^bold>\<open>C7\<close>. In every run from the initial state (any sequence of session establishment,
  tracking starts with their seed snapshots, tracking stops and protocol notifications, in
  any world) the registry holds no entry whose URL starts with \<^verbatim>\<open>devtools://\<close>. The seed
  loop and each of the three handlers keep the property from any state that has it.
\<close>

theorem registry_never_holds_devtools:
  "no_devtools_entry (run cfg env acts (initial_state cfg env))
 \<and> no_devtools_entry (seedTabs infos (initial_state cfg env))
 \<and> (no_devtools_entry st \<longrightarrow>
       no_devtools_entry (seedTabs infos st)
     \<and> no_devtools_entry (targetCreated env ti st)
     \<and> no_devtools_entry (targetInfoChanged env ti st)
     \<and> no_devtools_entry (targetDestroyed env tid st)
     \<and> no_devtools_entry (run cfg env acts st))"
proof -
  have eq: "no_devtools_entry s = tabs_ok False s" for s
    by (simp add: no_devtools_entry_def tabs_ok_def tab_ok_def)
  show ?thesis
    unfolding eq
    by (simp add: run_tabs_ok initial_tabs_ok seedTabs_tabs_ok targetCreated_tabs_ok
        targetInfoChanged_tabs_ok targetDestroyed_tabs_ok)
qed

theorem registry_never_holds_devtools_witness:
  "no_devtools_entry tracked_state
 \<and> no_devtools_entry (targetCreated demo_env (Some devtools_target) tracked_state)
 \<and> no_devtools_entry (targetInfoChanged demo_env (Some devtools_target) tracked_state)
 \<and> no_devtools_entry (seedTabs [demo_target, devtools_target] tracked_state)
 \<and> no_devtools_entry
      (run demo_config demo_env
         [StartTracking, Notify (TargetCreated (Some devtools_target)),
          Notify (TargetInfoChanged (Some devtools_target))]
         (initial_state demo_config demo_env))
 \<and> tabsById (targetCreated demo_env (Some devtools_target) tracked_state) = [(''T1'', demo_tab)]"
proof -
  have h: "no_devtools_entry tracked_state"
    by (simp add: no_devtools_entry_def tracked_state_def demo_tab_def startsWith_def)
  have t: "tabsById (targetCreated demo_env (Some devtools_target) tracked_state) = [(''T1'', demo_tab)]"
    by (simp add: targetCreated_def isDevtools_def devtools_target_def startsWith_def
        tracked_state_def)
  show ?thesis
    using registry_never_holds_devtools
        [where st = tracked_state and env = demo_env and cfg = demo_config
           and ti = "Some devtools_target" and infos = "[demo_target, devtools_target]"
           and acts = "[StartTracking, Notify (TargetCreated (Some devtools_target)),
                        Notify (TargetInfoChanged (Some devtools_target))]"]
      h t
    by simp
qed

text \<open>
  \<^bold>\<open>C6\<close>. In every state that a run reaches from an empty registry, under a clock that
  never reads zero, the handler of a change notification for a page target that is in the registry leaves an
  entry for that target which keeps the previous title when the incoming title is empty
  or absent, keeps the previous URL when the incoming URL is empty or absent, and keeps
  the creation time and the initial flag of the previous entry. When the run started
  without a connection, delivering the notification runs that handler exactly once.
\<close>

theorem changed_event_merge:
  assumes clock: "\<forall>t. Date_now env t \<noteq> 0"
    and start: "tabsById st0 = []"
    and reach: "st = run cfg env acts st0"
    and entry: "map_of (tabsById st) (targetId info) = Some prev"
    and page: "target_type info = ''page''"
  shows "(\<exists>t. map_of (tabsById (targetInfoChanged env (Some info) st)) (targetId info) = Some t
           \<and> (\<not> truthy_str (target_title info) \<longrightarrow> title t = title prev)
           \<and> (\<not> truthy_str (target_url info) \<longrightarrow> url t = url prev)
           \<and> createdAt t = createdAt prev
           \<and> isInitial t = isInitial prev)
       \<and> (cdpClient st0 = None \<longrightarrow>
            notify env (TargetInfoChanged (Some info)) st = targetInfoChanged env (Some info) st)"
proof -
  have "createdAt prev \<noteq> 0"
    using clock start entry reachable_createdAt unfolding reach by blast
  with entry page have m: "\<exists>t. map_of (tabsById (targetInfoChanged env (Some info) st)) (targetId info) = Some t
           \<and> (\<not> truthy_str (target_title info) \<longrightarrow> title t = title prev)
           \<and> (\<not> truthy_str (target_url info) \<longrightarrow> url t = url prev)
           \<and> createdAt t = createdAt prev
           \<and> isInitial t = isInitial prev"
    by (rule changed_merge_entry)
  have n: "cdpClient st0 = None \<longrightarrow>
            notify env (TargetInfoChanged (Some info)) st = targetInfoChanged env (Some info) st"
    using start entry reachable_notify_changed unfolding reach by blast
  from m n show ?thesis by blast
qed

theorem changed_event_merge_witness:
  "(\<forall>t. Date_now demo_env t \<noteq> 0)
 \<and> tabsById (initial_state demo_config demo_env) = []
 \<and> map_of (tabsById (run demo_config demo_env [StartTracking] (initial_state demo_config demo_env)))
      (targetId retitled_target) = Some (demo_tab\<lparr>createdAt := 1700000000001\<rparr>)
 \<and> target_type retitled_target = ''page''
 \<and> \<not> truthy_str (target_title retitled_target)
 \<and> (\<exists>t. map_of (tabsById (targetInfoChanged demo_env (Some retitled_target)
              (run demo_config demo_env [StartTracking] (initial_state demo_config demo_env))))
            ''T1'' = Some t
        \<and> title t = ''Inbox'' \<and> createdAt t = 1700000000001 \<and> isInitial t)
 \<and> cdpClient (initial_state demo_config demo_env) = None
 \<and> notify demo_env (TargetInfoChanged (Some retitled_target))
      (run demo_config demo_env [StartTracking] (initial_state demo_config demo_env))
     = targetInfoChanged demo_env (Some retitled_target)
      (run demo_config demo_env [StartTracking] (initial_state demo_config demo_env))"
proof -
  let ?st = "run demo_config demo_env [StartTracking] (initial_state demo_config demo_env)"
  have clock: "\<forall>t. Date_now demo_env t \<noteq> 0" by (simp add: demo_env_def)
  have entry: "map_of (tabsById ?st) (targetId retitled_target) = Some (demo_tab\<lparr>createdAt := 1700000000001\<rparr>)"
    by (simp add: run_def tracking_defs world_defs profile_defs js_defs Let_def)
  have page: "target_type retitled_target = ''page''" by (simp add: retitled_target_def)
  have empty: "\<not> truthy_str (target_title retitled_target)"
    by (simp add: retitled_target_def truthy_str_def)
  have tid: "targetId retitled_target = ''T1''" by (simp add: retitled_target_def)
  have start: "tabsById (initial_state demo_config demo_env) = []"
    by (simp add: initial_state_def)
  have idle: "cdpClient (initial_state demo_config demo_env) = None"
    by (simp add: initial_state_def)
  show ?thesis
    using changed_event_merge [OF clock start refl entry page] clock start idle entry page empty
    by (auto simp: tid demo_tab_def)
qed

end
